theory Spec2Isabelle
  imports Complex_Main "HOL-Library.AList"
begin

section \<open>JavaScript values\<close>

text \<open>
  The server of \<^verbatim>\<open>signaling-server.js\<close> handles parsed JSON. A value is what
  \<^verbatim>\<open>JSON.parse\<close> yields, plus \<^verbatim>\<open>undefined\<close> for a property that is absent.
  A \<open>string\<close> is a list of code units (one \<open>char\<close> each), so \<open>length\<close> is what
  \<^verbatim>\<open>.length\<close> counts. An object is the list of its properties.
\<close>

datatype jsval =
    JUndefined
  | JNull
  | JBool bool
  | JNum rat
  | JStr string
  | JArr "jsval list"
  | JObj "(string \<times> jsval) list"

text \<open>What \<^verbatim>\<open>if (v)\<close>, \<^verbatim>\<open>!v\<close> and \<^verbatim>\<open>v || w\<close> test.\<close>

fun truthy :: "jsval \<Rightarrow> bool" where
  "truthy JUndefined = False"
| "truthy JNull = False"
| "truthy (JBool b) = b"
| "truthy (JNum n) = (n \<noteq> 0)"
| "truthy (JStr s) = (s \<noteq> [])"
| "truthy (JArr xs) = True"
| "truthy (JObj ps) = True"

definition js_or :: "jsval \<Rightarrow> jsval \<Rightarrow> jsval" where
  "js_or a b = (if truthy a then a else b)"

text \<open>An inbound message after \<^verbatim>\<open>JSON.parse\<close>: the properties of the object.\<close>

type_synonym data = "(string \<times> jsval) list"

text \<open>\<^verbatim>\<open>data.k\<close>, and what \<^verbatim>\<open>const { k } = data\<close> binds.\<close>

definition get_prop :: "data \<Rightarrow> string \<Rightarrow> jsval" where
  "get_prop d k = (case map_of d k of None \<Rightarrow> JUndefined | Some v \<Rightarrow> v)"

text \<open>
  Whether converting a value to a string returns, as \<^verbatim>\<open>Array.prototype.join\<close> does for
  each element. An object that \<^verbatim>\<open>JSON.parse\<close> made has no callable property of its own:
  with a property \<^verbatim>\<open>toString\<close> of its own the conversion finds nothing to call and
  throws a \<^verbatim>\<open>TypeError\<close>, without one it is \<^verbatim>\<open>[object Object]\<close>. An array joins the
  conversions of its elements. Everything else has a string.
\<close>

fun stringifies :: "jsval \<Rightarrow> bool" where
  "stringifies (JArr xs) = list_all stringifies xs"
| "stringifies (JObj ps) = (''toString'' \<notin> set (map fst ps))"
| "stringifies v = True"

text \<open>The exception a handler can end with; the state it returns with is kept.\<close>

datatype error = TypeError

section \<open>State\<close>

text \<open>
  A connection is a \<^verbatim>\<open>ws\<close> object. The code compares connections by reference
  (\<^verbatim>\<open>player !== ws\<close>) and stores properties on them, so a connection is a handle
  and its properties live in a store \<open>conns\<close>.
\<close>

datatype readyState = CONNECTING | OPEN | CLOSING | CLOSED

type_synonym ws = nat

record conn =
  ws_readyState :: readyState
  ws_displayName :: jsval
  ws_roomId :: jsval
  ws_lastNewGameReqId :: jsval

record ready =
  p1 :: bool
  p2 :: bool

record room =
  players :: "ws list"
  isPrivate :: bool
  createdAt :: int
  ready :: ready

text \<open>
  \<open>rooms\<close> is the \<^verbatim>\<open>Map\<close> of the source, in insertion order. The keys the code stores
  are strings (a checked id or a generated one), so a lookup with any other value finds
  nothing. \<open>outbox\<close> logs every \<^verbatim>\<open>ws.send\<close> the server performs: the connection and the
  object it serialises. The two counters are JavaScript numbers that only ever count up
  by one.
\<close>

record state =
  rooms :: "(jsval \<times> room) list"
  waitingPlayers :: "ws list"
  totalGamesPlayed :: nat
  totalPlayersJoined :: nat
  conns :: "ws \<Rightarrow> conn"
  outbox :: "(ws \<times> jsval) list"

definition isOpen :: "state \<Rightarrow> ws \<Rightarrow> bool" where
  "isOpen s w = (ws_readyState (conns s w) = OPEN)"

section \<open>Utilities\<close>

text \<open>
  \<^verbatim>\<open>send(ws, data)\<close>: a missing connection and a transport that is not open are
  both skipped in silence.
\<close>

definition send :: "ws option \<Rightarrow> jsval \<Rightarrow> state \<Rightarrow> state" where
  "send w m s =
     (case w of
        None \<Rightarrow> s
      | Some c \<Rightarrow> if isOpen s c then s\<lparr>outbox := outbox s @ [(c, m)]\<rparr> else s)"

text \<open>\<^verbatim>\<open>s.substring(a, b)\<close>: both indices are clamped to the length, and swapped if needed.\<close>

definition substring :: "string \<Rightarrow> nat \<Rightarrow> nat \<Rightarrow> string" where
  "substring s a b =
     (let a' = min a (length s); b' = min b (length s);
          lo = min a' b'; hi = max a' b'
      in take (hi - lo) (drop lo s))"

text \<open>
  \<^verbatim>\<open>toUpperCase\<close> on the characters a number's rendering can hold: the letters
  a to z are raised, every other character of a rendering is left as it is.
\<close>

definition toUpperChar :: "char \<Rightarrow> char" where
  "toUpperChar c =
     (case map_of (zip ''abcdefghijklmnopqrstuvwxyz'' ''ABCDEFGHIJKLMNOPQRSTUVWXYZ'') c of
        None \<Rightarrow> c
      | Some u \<Rightarrow> u)"

definition toUpperCase :: "string \<Rightarrow> string" where
  "toUpperCase s = map toUpperChar s"

text \<open>
  \<^verbatim>\<open>generateRoomId()\<close>. Its argument is the random source: the text that
  \<^verbatim>\<open>Math.random().toString(36)\<close> evaluates to in this call.
\<close>

definition generateRoomId :: "string \<Rightarrow> string" where
  "generateRoomId rnd = toUpperCase (substring rnd 2 10)"

definition isValidRoomId :: "jsval \<Rightarrow> bool" where
  "isValidRoomId roomId =
     (case roomId of
        JStr i \<Rightarrow> length i \<ge> 4 \<and> length i \<le> 12
      | _ \<Rightarrow> False)"

definition getOpponent :: "ws \<Rightarrow> jsval \<Rightarrow> state \<Rightarrow> ws option" where
  "getOpponent w roomId s =
     (case map_of (rooms s) roomId of
        None \<Rightarrow> None
      | Some room \<Rightarrow> find (\<lambda>player. player \<noteq> w) (players room))"

definition broadcastToRoom :: "jsval \<Rightarrow> jsval \<Rightarrow> ws option \<Rightarrow> state \<Rightarrow> state" where
  "broadcastToRoom roomId m excludeWs s =
     (case map_of (rooms s) roomId of
        None \<Rightarrow> s
      | Some room \<Rightarrow>
          fold (\<lambda>player st. if Some player \<noteq> excludeWs then send (Some player) m st else st)
            (players room) s)"

section \<open>Outbound messages\<close>

definition msg_error :: "string \<Rightarrow> jsval" where
  "msg_error text = JObj [(''type'', JStr ''error''), (''message'', JStr text)]"

definition msg_waiting :: jsval where
  "msg_waiting = JObj [(''type'', JStr ''waiting'')]"

definition msg_matchFound :: "jsval \<Rightarrow> bool \<Rightarrow> jsval \<Rightarrow> jsval" where
  "msg_matchFound roomId isCaller opponentName =
     JObj [(''type'', JStr ''matchFound''), (''roomId'', roomId),
           (''isCaller'', JBool isCaller), (''opponentName'', opponentName)]"

definition msg_roomInvalid :: "jsval \<Rightarrow> jsval" where
  "msg_roomInvalid roomId = JObj [(''type'', JStr ''roomInvalid''), (''roomId'', roomId)]"

definition msg_roomFull :: "jsval \<Rightarrow> jsval" where
  "msg_roomFull roomId = JObj [(''type'', JStr ''roomFull''), (''roomId'', roomId)]"

definition msg_opponentDisconnected :: jsval where
  "msg_opponentDisconnected = JObj [(''type'', JStr ''opponentDisconnected'')]"

definition msg_opponentRequestedNewGame :: "jsval \<Rightarrow> jsval" where
  "msg_opponentRequestedNewGame requestId =
     JObj [(''type'', JStr ''opponentRequestedNewGame''), (''reqId'', requestId)]"

definition msg_startNewGame :: "jsval \<Rightarrow> jsval" where
  "msg_startNewGame requestId = JObj [(''type'', JStr ''startNewGame''), (''reqId'', requestId)]"

section \<open>Room management\<close>

definition set_roomId :: "ws \<Rightarrow> jsval \<Rightarrow> state \<Rightarrow> state" where
  "set_roomId w v s = s\<lparr>conns := (conns s)(w := (conns s w)\<lparr>ws_roomId := v\<rparr>)\<rparr>"

definition set_displayName :: "ws \<Rightarrow> jsval \<Rightarrow> state \<Rightarrow> state" where
  "set_displayName w v s = s\<lparr>conns := (conns s)(w := (conns s w)\<lparr>ws_displayName := v\<rparr>)\<rparr>"

definition set_lastNewGameReqId :: "ws \<Rightarrow> jsval \<Rightarrow> state \<Rightarrow> state" where
  "set_lastNewGameReqId w v s =
     s\<lparr>conns := (conns s)(w := (conns s w)\<lparr>ws_lastNewGameReqId := v\<rparr>)\<rparr>"

text \<open>\<^verbatim>\<open>rooms.create(roomId, firstPlayer, isPrivate)\<close>; \<open>now\<close> is \<^verbatim>\<open>Date.now()\<close>.\<close>

definition rooms_create :: "jsval \<Rightarrow> ws \<Rightarrow> bool \<Rightarrow> int \<Rightarrow> state \<Rightarrow> state" where
  "rooms_create roomId firstPlayer isPriv now s =
     set_roomId firstPlayer roomId
       (s\<lparr>rooms := AList.update roomId
            \<lparr>players = [firstPlayer], isPrivate = isPriv, createdAt = now,
             ready = \<lparr>p1 = False, p2 = False\<rparr>\<rparr> (rooms s)\<rparr>)"

text \<open>
  The announcement loop shared by \<^verbatim>\<open>rooms.join\<close> and \<^verbatim>\<open>joinPublicQueue\<close>:
  \<^verbatim>\<open>room.players.forEach((player, index) => ...)\<close>.
\<close>

definition opponentName :: "ws list \<Rightarrow> ws \<Rightarrow> state \<Rightarrow> jsval" where
  "opponentName ps player s =
     js_or (case find (\<lambda>p. p \<noteq> player) ps of
              None \<Rightarrow> JUndefined
            | Some opponent \<Rightarrow> ws_displayName (conns s opponent))
           (JStr ''Opponent'')"

definition announce :: "jsval \<Rightarrow> ws list \<Rightarrow> state \<Rightarrow> state" where
  "announce roomId ps s =
     fold (\<lambda>(index, player) st.
             send (Some player)
               (msg_matchFound roomId (index = 0) (opponentName ps player st)) st)
       (enumerate 0 ps) s"

text \<open>
  The log line of \<^verbatim>\<open>rooms.join\<close>,
  \<^verbatim>\<open>room.players.map(p => p.displayName).join(' vs ')\<close>, converts every display name to
  a string and throws when one has none.
\<close>

definition names_stringify :: "ws list \<Rightarrow> state \<Rightarrow> bool" where
  "names_stringify ps s = list_all (\<lambda>p. stringifies (ws_displayName (conns s p))) ps"

text \<open>
  \<^verbatim>\<open>rooms.join(roomId, player)\<close> returns whether the player was added, or throws at its
  log line: by then the player is in the session and nothing has been announced. (The
  id that the log lines print is a string wherever \<^verbatim>\<open>rooms.join\<close> is called: it has
  passed \<^verbatim>\<open>isValidRoomId\<close> or comes from \<^verbatim>\<open>generateRoomId\<close>.)
\<close>

definition rooms_join :: "jsval \<Rightarrow> ws \<Rightarrow> state \<Rightarrow> (error + bool) \<times> state" where
  "rooms_join roomId player s =
     (case map_of (rooms s) roomId of
        None \<Rightarrow> (Inr False, s)
      | Some room \<Rightarrow>
          if length (players room) \<ge> 2
          then (Inr False, send (Some player) (msg_error ''Room is full'') s)
          else
            let room' = room\<lparr>players := players room @ [player]\<rparr>;
                s1 = set_roomId player roomId
                       (s\<lparr>rooms := AList.update roomId room' (rooms s)\<rparr>)
            in if \<not> names_stringify (players room') s1 then (Inl TypeError, s1)
               else (Inr True, announce roomId (players room') s1))"

definition rooms_remove :: "jsval \<Rightarrow> state \<Rightarrow> state" where
  "rooms_remove roomId s =
     (case map_of (rooms s) roomId of
        None \<Rightarrow> s
      | Some room \<Rightarrow> s\<lparr>rooms := AList.delete roomId (rooms s)\<rparr>)"

definition rooms_handleDisconnect :: "ws \<Rightarrow> state \<Rightarrow> state" where
  "rooms_handleDisconnect w s =
     (if \<not> truthy (ws_roomId (conns s w)) then s
      else
        case map_of (rooms s) (ws_roomId (conns s w)) of
          None \<Rightarrow> s
        | Some room \<Rightarrow>
            let s1 = (case find (\<lambda>p. p \<noteq> w) (players room) of
                        None \<Rightarrow> s
                      | Some opponent \<Rightarrow>
                          if isOpen s opponent
                          then send (Some opponent) msg_opponentDisconnected s
                          else s)
            in rooms_remove (ws_roomId (conns s w)) s1)"

section \<open>Matchmaking\<close>

text \<open>
  \<^verbatim>\<open>joinPublicQueue(ws)\<close>; \<open>rnd\<close> is the random source of the one
  \<^verbatim>\<open>generateRoomId()\<close> call and \<open>now\<close> the clock of \<^verbatim>\<open>rooms.create\<close>. An exception
  of \<^verbatim>\<open>rooms.join\<close> ends the function before its own loop.
\<close>

definition joinPublicQueue :: "ws \<Rightarrow> string \<Rightarrow> int \<Rightarrow> state \<Rightarrow> (error + unit) \<times> state" where
  "joinPublicQueue w rnd now s =
     (let s1 = s\<lparr>waitingPlayers := filter (\<lambda>p. isOpen s p) (waitingPlayers s)\<rparr>
      in case waitingPlayers s1 of
           [] \<Rightarrow>
             (Inr (), send (Some w) msg_waiting (s1\<lparr>waitingPlayers := waitingPlayers s1 @ [w]\<rparr>))
         | opponent # rest \<Rightarrow>
             let s2 = s1\<lparr>waitingPlayers := rest\<rparr>;
                 roomId = JStr (generateRoomId rnd);
                 s3 = rooms_create roomId opponent False now s2;
                 s4 = set_displayName opponent
                        (js_or (ws_displayName (conns s3 opponent)) (JStr ''Player'')) s3;
                 s5 = set_displayName w
                        (js_or (ws_displayName (conns s4 w)) (JStr ''Player'')) s4;
                 joined = rooms_join roomId w s5;
                 s6 = snd joined
             in case fst joined of
                  Inl e \<Rightarrow> (Inl e, s6)
                | Inr added \<Rightarrow>
                    (Inr (),
                     case map_of (rooms s6) roomId of
                       None \<Rightarrow> s6
                     | Some room \<Rightarrow>
                         if length (players room) = 2
                         then announce roomId (players room) s6
                         else s6))"

text \<open>\<^verbatim>\<open>indexOf\<close> gives \<open>-1\<close> for an element that is absent.\<close>

fun indexOf :: "'a list \<Rightarrow> 'a \<Rightarrow> int" where
  "indexOf [] x = - 1"
| "indexOf (y # ys) x =
     (if y = x then 0 else (let i = indexOf ys x in if i = - 1 then - 1 else i + 1))"

text \<open>\<^verbatim>\<open>xs.splice(index, 1)\<close> for an index in range.\<close>

definition splice1 :: "'a list \<Rightarrow> nat \<Rightarrow> 'a list" where
  "splice1 xs i = take i xs @ drop (Suc i) xs"

definition removeFromQueue :: "ws \<Rightarrow> state \<Rightarrow> state" where
  "removeFromQueue w s =
     (let index = indexOf (waitingPlayers s) w
      in if index > - 1
         then s\<lparr>waitingPlayers := splice1 (waitingPlayers s) (nat index)\<rparr>
         else s)"

section \<open>Game actions\<close>

definition clear_lastNewGameReqId :: "ws list \<Rightarrow> state \<Rightarrow> state" where
  "clear_lastNewGameReqId ps s = fold (\<lambda>p st. set_lastNewGameReqId p JNull st) ps s"

text \<open>
  \<^verbatim>\<open>handleNewGameRequest(ws, data)\<close>; \<open>rnd\<close> is the random source, read only when
  the message carries no truthy \<^verbatim>\<open>reqId\<close>.
\<close>

definition handleNewGameRequest :: "ws \<Rightarrow> data \<Rightarrow> string \<Rightarrow> state \<Rightarrow> state" where
  "handleNewGameRequest w d rnd s =
     (let roomId = get_prop d ''roomId''; reqId = get_prop d ''reqId''
      in case map_of (rooms s) roomId of
           None \<Rightarrow> s
         | Some room \<Rightarrow>
             if length (players room) \<noteq> 2 then s
             else
               let playerIndex = indexOf (players room) w
               in if playerIndex = - 1 then s
                  else
                    let requestId = (if truthy reqId then reqId else JStr (generateRoomId rnd));
                        room1 = (if playerIndex = 0
                                 then room\<lparr>ready := (ready room)\<lparr>p1 := True\<rparr>\<rparr>
                                 else room\<lparr>ready := (ready room)\<lparr>p2 := True\<rparr>\<rparr>);
                        s1 = set_lastNewGameReqId w requestId
                               (s\<lparr>rooms := AList.update roomId room1 (rooms s)\<rparr>);
                        opponent = getOpponent w roomId s1
                    in if p1 (ready room1) \<and> p2 (ready room1)
                       then
                         let room2 = room1\<lparr>ready := \<lparr>p1 = False, p2 = False\<rparr>\<rparr>;
                             s2 = s1\<lparr>rooms := AList.update roomId room2 (rooms s1),
                                     totalGamesPlayed := totalGamesPlayed s1 + 1\<rparr>;
                             s3 = broadcastToRoom roomId (msg_startNewGame requestId) None s2
                         in clear_lastNewGameReqId (players room2) s3
                       else
                         case opponent of
                           None \<Rightarrow> s1
                         | Some opp \<Rightarrow>
                             if isOpen s1 opp
                             then send (Some opp) (msg_opponentRequestedNewGame requestId) s1
                             else s1)"

definition relaySignal :: "ws \<Rightarrow> data \<Rightarrow> state \<Rightarrow> state" where
  "relaySignal w d s =
     (case getOpponent w (get_prop d ''roomId'') s of
        None \<Rightarrow> s
      | Some opponent \<Rightarrow>
          if isOpen s opponent then send (Some opponent) (JObj d) s else s)"

section \<open>Message handlers\<close>

definition joinPublic :: "ws \<Rightarrow> data \<Rightarrow> string \<Rightarrow> int \<Rightarrow> state \<Rightarrow> (error + unit) \<times> state" where
  "joinPublic w d rnd now s =
     joinPublicQueue w rnd now
       (set_displayName w (js_or (get_prop d ''displayName'') (JStr ''Player'')) s)"

definition createPrivate :: "ws \<Rightarrow> data \<Rightarrow> int \<Rightarrow> state \<Rightarrow> state" where
  "createPrivate w d now s =
     (let s1 = set_displayName w (js_or (get_prop d ''displayName'') (JStr ''Player'')) s;
          roomId = get_prop d ''roomId''
      in if \<not> isValidRoomId roomId
         then send (Some w) (msg_error ''Invalid room ID format'') s1
         else if map_of (rooms s1) roomId \<noteq> None
         then send (Some w) (msg_error ''Room ID already exists'') s1
         else send (Some w) msg_waiting (rooms_create roomId w True now s1))"

definition joinPrivate :: "ws \<Rightarrow> data \<Rightarrow> state \<Rightarrow> (error + unit) \<times> state" where
  "joinPrivate w d s =
     (let s1 = set_displayName w (js_or (get_prop d ''displayName'') (JStr ''Player'')) s;
          roomId = get_prop d ''roomId''
      in if \<not> isValidRoomId roomId
         then (Inr (), send (Some w) (msg_error ''Invalid room ID format'') s1)
         else
           case map_of (rooms s1) roomId of
             None \<Rightarrow> (Inr (), send (Some w) (msg_roomInvalid roomId) s1)
           | Some room \<Rightarrow>
               if length (players room) \<ge> 2
               then (Inr (), send (Some w) (msg_roomFull roomId) s1)
               else
                 let joined = rooms_join roomId w s1
                 in (case fst joined of Inl e \<Rightarrow> Inl e | Inr added \<Rightarrow> Inr (), snd joined))"

definition offer :: "ws \<Rightarrow> data \<Rightarrow> state \<Rightarrow> state" where
  "offer w d s = relaySignal w d s"

definition answer :: "ws \<Rightarrow> data \<Rightarrow> state \<Rightarrow> state" where
  "answer w d s = relaySignal w d s"

definition ice :: "ws \<Rightarrow> data \<Rightarrow> state \<Rightarrow> state" where
  "ice w d s = relaySignal w d s"

definition readyForNewGame :: "ws \<Rightarrow> data \<Rightarrow> string \<Rightarrow> state \<Rightarrow> state" where
  "readyForNewGame w d rnd s = handleNewGameRequest w d rnd s"

section \<open>Connection handling and cleanup\<close>

text \<open>
  The message listener calls the handler inside \<^verbatim>\<open>try\<close>: an exception is caught, the
  state is as the handler left it, and the sender is sent the error
  \<^verbatim>\<open>Server error occurred\<close>. Of the handlers, the two that reach \<^verbatim>\<open>rooms.join\<close> can throw.
\<close>

definition guarded :: "ws \<Rightarrow> (error + 'a) \<times> state \<Rightarrow> state" where
  "guarded w r =
     (case fst r of
        Inl e \<Rightarrow> send (Some w) (msg_error ''Server error occurred'') (snd r)
      | Inr x \<Rightarrow> snd r)"

definition on_message_joinPublic :: "ws \<Rightarrow> data \<Rightarrow> string \<Rightarrow> int \<Rightarrow> state \<Rightarrow> state" where
  "on_message_joinPublic w d rnd now s = guarded w (joinPublic w d rnd now s)"

definition on_message_joinPrivate :: "ws \<Rightarrow> data \<Rightarrow> state \<Rightarrow> state" where
  "on_message_joinPrivate w d s = guarded w (joinPrivate w d s)"

text \<open>The \<^verbatim>\<open>close\<close> event of a connection.\<close>

definition on_close :: "ws \<Rightarrow> state \<Rightarrow> state" where
  "on_close w s = rooms_handleDisconnect w (removeFromQueue w s)"

definition maxAge :: int where
  "maxAge = 24 * 60 * 60 * 1000"

definition hasActivePlayer :: "state \<Rightarrow> room \<Rightarrow> bool" where
  "hasActivePlayer s room = list_ex (\<lambda>p. isOpen s p) (players room)"

definition stale :: "state \<Rightarrow> int \<Rightarrow> room \<Rightarrow> bool" where
  "stale s now room = (\<not> hasActivePlayer s room \<or> now - createdAt room > maxAge)"

text \<open>
  The sweep that \<^verbatim>\<open>setInterval\<close> runs every minute: it walks the entries of the map
  and deletes the stale ones as it goes.
\<close>

definition cleanup :: "int \<Rightarrow> state \<Rightarrow> state" where
  "cleanup now s =
     s\<lparr>rooms := fold (\<lambda>(roomId, room) rs. if stale s now room then AList.delete roomId rs else rs)
                  (rooms s) (rooms s)\<rparr>"

section \<open>Vocabulary of the properties\<close>

text \<open>
  \<open>deliver s ms\<close> are the messages of \<open>ms\<close> whose receiver has an open transport in
  \<open>s\<close>: what a run of \<^verbatim>\<open>send\<close> calls over \<open>ms\<close> adds to the outbox.
\<close>

definition deliver :: "state \<Rightarrow> (ws \<times> jsval) list \<Rightarrow> (ws \<times> jsval) list" where
  "deliver s ms = filter (\<lambda>(w, m). isOpen s w) ms"

text \<open>
  The server at start: no session, nobody waiting, counters at zero. A connection that
  has sent nothing yet is open and has none of the three properties.
\<close>

definition conn0 :: conn where
  "conn0 = \<lparr>ws_readyState = OPEN, ws_displayName = JUndefined, ws_roomId = JUndefined,
            ws_lastNewGameReqId = JUndefined\<rparr>"

definition state0 :: state where
  "state0 = \<lparr>rooms = [], waitingPlayers = [], totalGamesPlayed = 0, totalPlayersJoined = 0,
             conns = (\<lambda>w. conn0), outbox = []\<rparr>"

text \<open>
  The session that \<^verbatim>\<open>rooms.create\<close> stores, the \<^verbatim>\<open>matchFound\<close> messages of the
  announcement loop over the indexed participants \<open>xs\<close>, and the request id of a
  \<^verbatim>\<open>readyForNewGame\<close> message: its \<^verbatim>\<open>reqId\<close>, or a minted one.
\<close>

definition new_room :: "ws \<Rightarrow> bool \<Rightarrow> int \<Rightarrow> room" where
  "new_room w isPriv now =
     \<lparr>players = [w], isPrivate = isPriv, createdAt = now, ready = \<lparr>p1 = False, p2 = False\<rparr>\<rparr>"

definition matchFound_list :: "jsval \<Rightarrow> ws list \<Rightarrow> state \<Rightarrow> (nat \<times> ws) list \<Rightarrow> (ws \<times> jsval) list" where
  "matchFound_list roomId ps s xs =
     map (\<lambda>(index, player). (player, msg_matchFound roomId (index = 0) (opponentName ps player s))) xs"

definition requestId_of :: "data \<Rightarrow> string \<Rightarrow> jsval" where
  "requestId_of d rnd =
     (if truthy (get_prop d ''reqId'') then get_prop d ''reqId'' else JStr (generateRoomId rnd))"

text \<open>
  The id format in the words of the specification: a string of 4 to 12 characters, each
  in \<^verbatim>\<open>[A-Za-z0-9]\<close>. The code's check is \<open>isValidRoomId\<close>.
\<close>

definition alnum :: "char \<Rightarrow> bool" where
  "alnum c = (c \<in> set ''ABCDEFGHIJKLMNOPQRSTUVWXYZabcdefghijklmnopqrstuvwxyz0123456789'')"

definition spec_valid_id :: "jsval \<Rightarrow> bool" where
  "spec_valid_id v =
     (case v of
        JStr i \<Rightarrow> 4 \<le> length i \<and> length i \<le> 12 \<and> list_all alnum i
      | _ \<Rightarrow> False)"

text \<open>
  The operations on the matchmaking queue: a connection enqueues (with the random source
  and the clock of that call; the state after it is the one the message listener leaves),
  a connection is taken out, and, in between, a transport changes its state.
\<close>

datatype queue_op = EnqueuePublic ws string int | Dequeue ws | Transport ws readyState

fun queue_step :: "queue_op \<Rightarrow> state \<Rightarrow> state" where
  "queue_step (EnqueuePublic w rnd now) s = guarded w (joinPublicQueue w rnd now s)"
| "queue_step (Dequeue w) s = removeFromQueue w s"
| "queue_step (Transport w r) s = s\<lparr>conns := (conns s)(w := (conns s w)\<lparr>ws_readyState := r\<rparr>)\<rparr>"

definition run_queue :: "queue_op list \<Rightarrow> state \<Rightarrow> state" where
  "run_queue ops s = fold queue_step ops s"

text \<open>
  Example runs from the start state. Connection 1 (Ann) creates the private session
  \<^verbatim>\<open>ABCD1234\<close> at time 0 and connection 2 (Bob) joins it; then either connection 1
  creates a second session, or every transport closes, or Bob's alone is closing, or
  connection 1 asks for a rematch with the request id \<^verbatim>\<open>r1\<close>. In \<open>demo_queued\<close>
  connection 1 waits in the public queue. The \<open>closing\<close> variants have one transport that
  is no longer open, and the \<open>unnamed\<close> messages carry the display name
  \<^verbatim>\<open>{"toString": null}\<close>, which has no string.
\<close>

definition demo_create :: data where
  "demo_create = [(''type'', JStr ''createPrivate''), (''displayName'', JStr ''Ann''),
                  (''roomId'', JStr ''ABCD1234'')]"

definition demo_join :: data where
  "demo_join = [(''type'', JStr ''joinPrivate''), (''displayName'', JStr ''Bob''),
                (''roomId'', JStr ''ABCD1234'')]"

definition demo_waiting :: state where
  "demo_waiting = createPrivate 1 demo_create 0 state0"

definition demo_paired :: state where
  "demo_paired = on_message_joinPrivate 2 demo_join demo_waiting"

definition demo_two_rooms :: state where
  "demo_two_rooms =
     createPrivate 1 [(''type'', JStr ''createPrivate''), (''roomId'', JStr ''WXYZ9876'')] 1 demo_paired"

definition demo_closed :: state where
  "demo_closed = demo_paired\<lparr>conns := (\<lambda>w. (conns demo_paired w)\<lparr>ws_readyState := CLOSED\<rparr>)\<rparr>"

definition demo_closing :: state where
  "demo_closing =
     demo_paired\<lparr>conns := (conns demo_paired)(2 := (conns demo_paired 2)\<lparr>ws_readyState := CLOSING\<rparr>)\<rparr>"

definition demo_join_unnamed :: data where
  "demo_join_unnamed = [(''type'', JStr ''joinPrivate''),
                        (''displayName'', JObj [(''toString'', JNull)]),
                        (''roomId'', JStr ''ABCD1234'')]"


definition demo_queued :: state where
  "demo_queued =
     on_message_joinPublic 1 [(''type'', JStr ''joinPublic''), (''displayName'', JStr ''Ann'')]
       ''0.8cjnb1qgx2e'' 0 state0"

definition demo_queued_closing :: state where
  "demo_queued_closing =
     demo_queued\<lparr>conns := (conns demo_queued)(2 := (conns demo_queued 2)\<lparr>ws_readyState := CLOSING\<rparr>)\<rparr>"

definition demo_enqueue_unnamed :: data where
  "demo_enqueue_unnamed = [(''type'', JStr ''joinPublic''),
                           (''displayName'', JObj [(''toString'', JNull)])]"

definition demo_ready :: data where
  "demo_ready = [(''type'', JStr ''readyForNewGame''), (''roomId'', JStr ''ABCD1234''),
                 (''reqId'', JStr ''r1'')]"

definition demo_ready_bare :: data where
  "demo_ready_bare = [(''type'', JStr ''readyForNewGame''), (''roomId'', JStr ''ABCD1234'')]"

definition demo_one_ready :: state where
  "demo_one_ready = handleNewGameRequest 1 demo_ready ''0.8cjnb1qgx2e'' demo_paired"

definition demo_offer :: data where
  "demo_offer = [(''type'', JStr ''offer''), (''roomId'', JStr ''ABCD1234''),
                 (''sdp'', JStr ''v=0'')]"

text \<open>
  Invariants of the session table: its keys are distinct, and every session has one or
  two participants.
\<close>

definition keys_distinct :: "state \<Rightarrow> bool" where
  "keys_distinct s = distinct (map fst (rooms s))"

definition rooms_filled :: "state \<Rightarrow> bool" where
  "rooms_filled s =
     list_all (\<lambda>(roomId, room). players room \<noteq> [] \<and> length (players room) \<le> 2) (rooms s)"

text \<open>
  A third invariant: a session with a single participant was made by
  \<^verbatim>\<open>createPrivate\<close>, so its id passed the format check.
\<close>

definition waiting_rooms_checked :: "state \<Rightarrow> bool" where
  "waiting_rooms_checked s =
     list_all (\<lambda>(roomId, room). length (players room) = 1 \<longrightarrow> isValidRoomId roomId) (rooms s)"

section \<open>Frame lemmas\<close>

lemma send_frame [simp]:
  "rooms (send w m s) = rooms s"
  "conns (send w m s) = conns s"
  "waitingPlayers (send w m s) = waitingPlayers s"
  "totalGamesPlayed (send w m s) = totalGamesPlayed s"
  "totalPlayersJoined (send w m s) = totalPlayersJoined s"
  by (simp_all add: send_def split: option.split)

lemma isOpen_conns: "conns s = conns t \<Longrightarrow> isOpen s = isOpen t"
  by (simp add: isOpen_def fun_eq_iff)

lemma isOpen_send [simp]: "isOpen (send w m s) = isOpen s"
  by (rule isOpen_conns) simp

lemma isOpen_update [simp]:
  "isOpen (s\<lparr>rooms := r\<rparr>) = isOpen s"
  "isOpen (s\<lparr>waitingPlayers := q\<rparr>) = isOpen s"
  "isOpen (s\<lparr>totalGamesPlayed := n\<rparr>) = isOpen s"
  "isOpen (s\<lparr>outbox := ob\<rparr>) = isOpen s"
  by (simp_all add: isOpen_def fun_eq_iff)

lemma deliver_conns: "conns s = conns t \<Longrightarrow> deliver s = deliver t"
  by (simp add: deliver_def fun_eq_iff isOpen_def)

lemma deliver_send [simp]: "deliver (send w m s) = deliver s"
  by (rule deliver_conns) simp

lemma deliver_update [simp]:
  "deliver (s\<lparr>rooms := r\<rparr>) = deliver s"
  "deliver (s\<lparr>waitingPlayers := q\<rparr>) = deliver s"
  "deliver (s\<lparr>totalGamesPlayed := n\<rparr>) = deliver s"
  "deliver (s\<lparr>outbox := ob\<rparr>) = deliver s"
  by (simp_all add: deliver_def fun_eq_iff)

lemma deliver_append [simp]: "deliver s (xs @ ys) = deliver s xs @ deliver s ys"
  by (simp add: deliver_def)

lemma deliver_Nil [simp]: "deliver s [] = []"
  by (simp add: deliver_def)

lemma deliver_Cons: "deliver s ((w, m) # ms) = (if isOpen s w then (w, m) # deliver s ms else deliver s ms)"
  by (simp add: deliver_def)

lemma outbox_send: "outbox (send (Some c) m s) = outbox s @ deliver s [(c, m)]"
  by (simp add: send_def deliver_def)

lemma outbox_send_send:
  "outbox (send (Some b) m (send (Some a) m t)) = outbox t @ deliver t [(a, m), (b, m)]"
  by (simp add: outbox_send deliver_def)

lemma set_roomId_frame [simp]:
  "rooms (set_roomId w v s) = rooms s"
  "waitingPlayers (set_roomId w v s) = waitingPlayers s"
  "totalGamesPlayed (set_roomId w v s) = totalGamesPlayed s"
  "outbox (set_roomId w v s) = outbox s"
  "isOpen (set_roomId w v s) = isOpen s"
  "ws_displayName (conns (set_roomId w v s) c) = ws_displayName (conns s c)"
  "ws_lastNewGameReqId (conns (set_roomId w v s) c) = ws_lastNewGameReqId (conns s c)"
  "ws_roomId (conns (set_roomId w v s) c) = (if c = w then v else ws_roomId (conns s c))"
  by (simp_all add: set_roomId_def isOpen_def fun_eq_iff)

lemma set_displayName_frame [simp]:
  "rooms (set_displayName w v s) = rooms s"
  "waitingPlayers (set_displayName w v s) = waitingPlayers s"
  "totalGamesPlayed (set_displayName w v s) = totalGamesPlayed s"
  "outbox (set_displayName w v s) = outbox s"
  "isOpen (set_displayName w v s) = isOpen s"
  "ws_roomId (conns (set_displayName w v s) c) = ws_roomId (conns s c)"
  "ws_lastNewGameReqId (conns (set_displayName w v s) c) = ws_lastNewGameReqId (conns s c)"
  "ws_displayName (conns (set_displayName w v s) c) = (if c = w then v else ws_displayName (conns s c))"
  by (simp_all add: set_displayName_def isOpen_def fun_eq_iff)

lemma set_lastNewGameReqId_frame [simp]:
  "rooms (set_lastNewGameReqId w v s) = rooms s"
  "waitingPlayers (set_lastNewGameReqId w v s) = waitingPlayers s"
  "totalGamesPlayed (set_lastNewGameReqId w v s) = totalGamesPlayed s"
  "outbox (set_lastNewGameReqId w v s) = outbox s"
  "isOpen (set_lastNewGameReqId w v s) = isOpen s"
  "ws_roomId (conns (set_lastNewGameReqId w v s) c) = ws_roomId (conns s c)"
  "ws_displayName (conns (set_lastNewGameReqId w v s) c) = ws_displayName (conns s c)"
  "ws_lastNewGameReqId (conns (set_lastNewGameReqId w v s) c) =
     (if c = w then v else ws_lastNewGameReqId (conns s c))"
  by (simp_all add: set_lastNewGameReqId_def isOpen_def fun_eq_iff)

lemma deliver_set [simp]:
  "deliver (set_roomId w v s) = deliver s"
  "deliver (set_displayName w v s) = deliver s"
  "deliver (set_lastNewGameReqId w v s) = deliver s"
  by (simp_all add: deliver_def fun_eq_iff)

lemma clear_pair_frame [simp]:
  "rooms (clear_lastNewGameReqId [a, b] t) = rooms t"
  "outbox (clear_lastNewGameReqId [a, b] t) = outbox t"
  "totalGamesPlayed (clear_lastNewGameReqId [a, b] t) = totalGamesPlayed t"
  "waitingPlayers (clear_lastNewGameReqId [a, b] t) = waitingPlayers t"
  "ws_lastNewGameReqId (conns (clear_lastNewGameReqId [a, b] t) c) =
     (if c = a \<or> c = b then JNull else ws_lastNewGameReqId (conns t c))"
  by (simp_all add: clear_lastNewGameReqId_def)

lemma removeFromQueue_frame [simp]:
  "rooms (removeFromQueue w s) = rooms s"
  "conns (removeFromQueue w s) = conns s"
  "outbox (removeFromQueue w s) = outbox s"
  "totalGamesPlayed (removeFromQueue w s) = totalGamesPlayed s"
  by (simp_all add: removeFromQueue_def Let_def)

lemma rooms_create_frame [simp]:
  "rooms (rooms_create roomId w b now s) = AList.update roomId (new_room w b now) (rooms s)"
  "outbox (rooms_create roomId w b now s) = outbox s"
  "waitingPlayers (rooms_create roomId w b now s) = waitingPlayers s"
  "totalGamesPlayed (rooms_create roomId w b now s) = totalGamesPlayed s"
  "isOpen (rooms_create roomId w b now s) = isOpen s"
  "deliver (rooms_create roomId w b now s) = deliver s"
  "ws_roomId (conns (rooms_create roomId w b now s) c) = (if c = w then roomId else ws_roomId (conns s c))"
  "ws_displayName (conns (rooms_create roomId w b now s) c) = ws_displayName (conns s c)"
  by (simp_all add: rooms_create_def new_room_def)

lemma js_or_Player_truthy [simp]: "truthy (js_or v (JStr ''Player''))"
  by (simp add: js_or_def)

lemma js_or_truthy [simp]: "truthy v \<Longrightarrow> js_or v u = v"
  by (simp add: js_or_def)

lemma js_or_idem [simp]: "js_or (js_or v u) u = js_or v u"
  by (simp add: js_or_def)

lemma js_or_Player_Opponent [simp]:
  "js_or (js_or v (JStr ''Player'')) (JStr ''Opponent'') = js_or v (JStr ''Player'')"
  by (simp add: js_or_def)

lemma update_absent: "map_of al k = None \<Longrightarrow> AList.update k v al = al @ [(k, v)]"
  by (induction al) (auto split: if_splits)

lemma map_of_update_same [simp]: "map_of (AList.update k v al) k = Some v"
  by (simp add: update_conv')

lemma isValidRoomId_iff:
  "isValidRoomId v \<longleftrightarrow> (\<exists>i. v = JStr i \<and> 4 \<le> length i \<and> length i \<le> 12)"
  by (cases v) (simp_all add: isValidRoomId_def)

subsection \<open>The announcement loop\<close>

lemma opponentName_conns: "conns s = conns t \<Longrightarrow> opponentName ps p s = opponentName ps p t"
  by (simp add: opponentName_def split: option.split)

lemma announce_fold:
  "rooms (fold (\<lambda>(index, player) st.
             send (Some player)
               (msg_matchFound roomId (index = 0) (opponentName ps player st)) st) xs s) = rooms s
   \<and> conns (fold (\<lambda>(index, player) st.
             send (Some player)
               (msg_matchFound roomId (index = 0) (opponentName ps player st)) st) xs s) = conns s
   \<and> waitingPlayers (fold (\<lambda>(index, player) st.
             send (Some player)
               (msg_matchFound roomId (index = 0) (opponentName ps player st)) st) xs s) = waitingPlayers s
   \<and> totalGamesPlayed (fold (\<lambda>(index, player) st.
             send (Some player)
               (msg_matchFound roomId (index = 0) (opponentName ps player st)) st) xs s) = totalGamesPlayed s
   \<and> outbox (fold (\<lambda>(index, player) st.
             send (Some player)
               (msg_matchFound roomId (index = 0) (opponentName ps player st)) st) xs s)
       = outbox s @ deliver s (matchFound_list roomId ps s xs)"
proof (induction xs arbitrary: s)
  case Nil
  then show ?case by (simp add: matchFound_list_def)
next
  case (Cons x xs)
  obtain i p where x: "x = (i, p)" by (cases x)
  let ?s1 = "send (Some p) (msg_matchFound roomId (i = 0) (opponentName ps p s)) s"
  have c: "conns ?s1 = conns s" by simp
  have m: "matchFound_list roomId ps ?s1 xs = matchFound_list roomId ps s xs"
    by (simp add: matchFound_list_def opponentName_conns [OF c])
  show ?case
    using Cons.IH [of ?s1]
    by (simp add: x m outbox_send) (simp add: matchFound_list_def deliver_def)
qed

lemma announce_frame [simp]:
  "rooms (announce roomId ps s) = rooms s"
  "conns (announce roomId ps s) = conns s"
  "waitingPlayers (announce roomId ps s) = waitingPlayers s"
  "totalGamesPlayed (announce roomId ps s) = totalGamesPlayed s"
  using announce_fold [of roomId ps "enumerate 0 ps" s] by (simp_all add: announce_def)

lemma outbox_announce:
  "outbox (announce roomId ps s) =
     outbox s @ deliver s (matchFound_list roomId ps s (enumerate 0 ps))"
  using announce_fold [of roomId ps "enumerate 0 ps" s] by (simp add: announce_def)

lemma opponentName_pair:
  "opponentName [a, b] a s = (if b = a then JStr ''Opponent'' else js_or (ws_displayName (conns s b)) (JStr ''Opponent''))"
  "opponentName [a, b] b s = (if b = a then JStr ''Opponent'' else js_or (ws_displayName (conns s a)) (JStr ''Opponent''))"
  by (auto simp: opponentName_def js_or_def)

lemma matchFound_list_pair:
  "matchFound_list roomId [a, b] s [(0, a), (Suc 0, b)] =
     [(a, msg_matchFound roomId True (opponentName [a, b] a s)),
      (b, msg_matchFound roomId False (opponentName [a, b] b s))]"
  by (simp add: matchFound_list_def)

subsection \<open>Joining a session\<close>

lemma names_stringify_conns:
  "conns s = conns t \<Longrightarrow> names_stringify ps s = names_stringify ps t"
  by (simp add: names_stringify_def)

lemma names_stringify_frame [simp]:
  "names_stringify ps (s\<lparr>rooms := r\<rparr>) = names_stringify ps s"
  "names_stringify ps (s\<lparr>waitingPlayers := q\<rparr>) = names_stringify ps s"
  "names_stringify ps (set_roomId w v s) = names_stringify ps s"
  "names_stringify ps (rooms_create roomId w b now s) = names_stringify ps s"
  by (simp_all add: names_stringify_def)

lemma names_stringify_pair:
  "names_stringify [a, b] s \<longleftrightarrow>
     stringifies (ws_displayName (conns s a)) \<and> stringifies (ws_displayName (conns s b))"
  by (simp add: names_stringify_def)

lemma falsy_stringifies: "\<not> truthy v \<Longrightarrow> stringifies v"
  by (cases v) simp_all

lemma stringifies_js_or_Player [simp]:
  "stringifies (js_or v (JStr ''Player'')) = stringifies v"
  by (auto simp: js_or_def falsy_stringifies)

lemma isOpen_announce [simp]: "isOpen (announce roomId ps s) = isOpen s"
  by (rule isOpen_conns) simp

lemma deliver_announce [simp]: "deliver (announce roomId ps s) = deliver s"
  by (rule deliver_conns) simp

lemma rooms_join_single:
  assumes "map_of (rooms s) roomId = Some room" and "players room = [creator]"
    and "names_stringify [creator, w] s"
  shows "rooms_join roomId w s =
           (Inr True, announce roomId [creator, w]
                    (set_roomId w roomId
                       (s\<lparr>rooms := AList.update roomId (room\<lparr>players := [creator, w]\<rparr>) (rooms s)\<rparr>)))"
  using assms by (simp add: rooms_join_def Let_def)


lemma rooms_join_throws:
  assumes "map_of (rooms s) roomId = Some room" and "length (players room) < 2"
    and "\<not> names_stringify (players room @ [w]) s"
  shows "rooms_join roomId w s =
           (Inl TypeError,
            set_roomId w roomId
              (s\<lparr>rooms := AList.update roomId (room\<lparr>players := players room @ [w]\<rparr>) (rooms s)\<rparr>))"
  using assms by (simp add: rooms_join_def Let_def)

lemma rooms_join_rooms:
  "rooms (snd (rooms_join roomId w s)) =
     (case map_of (rooms s) roomId of
        None \<Rightarrow> rooms s
      | Some room \<Rightarrow>
          if length (players room) \<ge> 2 then rooms s
          else AList.update roomId (room\<lparr>players := players room @ [w]\<rparr>) (rooms s))"
  by (simp add: rooms_join_def Let_def split: option.split)

lemma rooms_join_frame [simp]:
  "waitingPlayers (snd (rooms_join roomId w s)) = waitingPlayers s"
  "totalGamesPlayed (snd (rooms_join roomId w s)) = totalGamesPlayed s"
  "isOpen (snd (rooms_join roomId w s)) = isOpen s"
  by (simp_all add: rooms_join_def Let_def split: option.split)

subsection \<open>The message listener\<close>

lemma guarded_simps [simp]:
  "guarded w (Inr x, s) = s"
  "guarded w (Inl e, s) = send (Some w) (msg_error ''Server error occurred'') s"
  by (simp_all add: guarded_def)

lemma guarded_frame [simp]:
  "rooms (guarded w r) = rooms (snd r)"
  "conns (guarded w r) = conns (snd r)"
  "waitingPlayers (guarded w r) = waitingPlayers (snd r)"
  "totalGamesPlayed (guarded w r) = totalGamesPlayed (snd r)"
  "isOpen (guarded w r) = isOpen (snd r)"
  by (simp_all add: guarded_def split: sum.split)

subsection \<open>The example states\<close>

lemmas eval_defs =
  createPrivate_def joinPrivate_def get_prop_def isValidRoomId_def
  state0_def conn0_def rooms_create_def set_roomId_def set_displayName_def send_def
  isOpen_def js_or_def Let_def rooms_join_def announce_def opponentName_def
  deliver_def enumerate_eq_zip set_lastNewGameReqId_def getOpponent_def
  names_stringify_def guarded_def on_message_joinPrivate_def on_message_joinPublic_def

lemma demo_waiting_eq:
  "demo_waiting =
     \<lparr>rooms = [(JStr ''ABCD1234'', \<lparr>players = [1], isPrivate = True, createdAt = 0,
                                      ready = \<lparr>p1 = False, p2 = False\<rparr>\<rparr>)],
      waitingPlayers = [], totalGamesPlayed = 0, totalPlayersJoined = 0,
      conns = (\<lambda>w. conn0)(1 := conn0\<lparr>ws_displayName := JStr ''Ann'', ws_roomId := JStr ''ABCD1234''\<rparr>),
      outbox = [(1, msg_waiting)]\<rparr>"
  by (simp add: demo_waiting_def demo_create_def eval_defs)

lemma demo_paired_eq:
  "demo_paired =
     \<lparr>rooms = [(JStr ''ABCD1234'', \<lparr>players = [1, 2], isPrivate = True, createdAt = 0,
                                      ready = \<lparr>p1 = False, p2 = False\<rparr>\<rparr>)],
      waitingPlayers = [], totalGamesPlayed = 0, totalPlayersJoined = 0,
      conns = (\<lambda>w. conn0)
        (1 := conn0\<lparr>ws_displayName := JStr ''Ann'', ws_roomId := JStr ''ABCD1234''\<rparr>,
         2 := conn0\<lparr>ws_displayName := JStr ''Bob'', ws_roomId := JStr ''ABCD1234''\<rparr>),
      outbox = [(1, msg_waiting),
                (1, msg_matchFound (JStr ''ABCD1234'') True (JStr ''Bob'')),
                (2, msg_matchFound (JStr ''ABCD1234'') False (JStr ''Ann''))]\<rparr>"
  by (simp add: demo_paired_def demo_waiting_def demo_create_def demo_join_def eval_defs
      msg_matchFound_def msg_waiting_def)

lemma demo_one_ready_eq:
  "demo_one_ready =
     \<lparr>rooms = [(JStr ''ABCD1234'', \<lparr>players = [1, 2], isPrivate = True, createdAt = 0,
                                      ready = \<lparr>p1 = True, p2 = False\<rparr>\<rparr>)],
      waitingPlayers = [], totalGamesPlayed = 0, totalPlayersJoined = 0,
      conns = (\<lambda>w. conn0)
        (1 := conn0\<lparr>ws_displayName := JStr ''Ann'', ws_roomId := JStr ''ABCD1234'',
                    ws_lastNewGameReqId := JStr ''r1''\<rparr>,
         2 := conn0\<lparr>ws_displayName := JStr ''Bob'', ws_roomId := JStr ''ABCD1234''\<rparr>),
      outbox = [(1, msg_waiting),
                (1, msg_matchFound (JStr ''ABCD1234'') True (JStr ''Bob'')),
                (2, msg_matchFound (JStr ''ABCD1234'') False (JStr ''Ann'')),
                (2, msg_opponentRequestedNewGame (JStr ''r1''))]\<rparr>"
  by (simp add: demo_one_ready_def demo_paired_eq demo_ready_def handleNewGameRequest_def
      get_prop_def Let_def getOpponent_def set_lastNewGameReqId_def isOpen_def conn0_def send_def
      fun_upd_twist)

section \<open>Private sessions\<close>

text \<open>
  C3 (amended). \<^verbatim>\<open>createPrivate\<close> answers with the error \<^verbatim>\<open>Invalid room ID format\<close>
  exactly when the id is not a string of 4 to 12 characters; which characters the string
  holds is not checked. Otherwise, when a session with that id exists, it answers with the
  error \<^verbatim>\<open>Room ID already exists\<close> and the session table is left as it was. Otherwise
  it adds a private session whose only participant is the creator, records the id on the
  creator and answers \<^verbatim>\<open>waiting\<close>. Each answer is one message to the creator, sent if the
  creator's transport is open.
\<close>

theorem createPrivate_outcome:
  "(let roomId = get_prop d ''roomId'';
        s' = createPrivate w d now s;
        is_4_12 = (\<exists>i. roomId = JStr i \<and> 4 \<le> length i \<and> length i \<le> 12);
        in_use = (map_of (rooms s) roomId \<noteq> None)
    in outbox s' = outbox s @ deliver s
         [(w, if \<not> is_4_12 then msg_error ''Invalid room ID format''
              else if in_use then msg_error ''Room ID already exists''
              else msg_waiting)]
       \<and> rooms s' = (if is_4_12 \<and> \<not> in_use
                     then rooms s @ [(roomId, \<lparr>players = [w], isPrivate = True, createdAt = now,
                                               ready = \<lparr>p1 = False, p2 = False\<rparr>\<rparr>)]
                     else rooms s)
       \<and> ws_roomId (conns s' w) = (if is_4_12 \<and> \<not> in_use then roomId else ws_roomId (conns s w)))"
  unfolding Let_def isValidRoomId_iff [symmetric]
  by (auto simp: createPrivate_def outbox_send update_absent new_room_def Let_def)

text \<open>
  In the example, connection 2 asks for the id that connection 1 holds: the error goes to
  connection 2 and the table is unchanged.
\<close>

theorem createPrivate_outcome_witness:
  "outbox (createPrivate 2 demo_create 5 demo_waiting) =
     [(1, msg_waiting), (2, msg_error ''Room ID already exists'')]
   \<and> rooms (createPrivate 2 demo_create 5 demo_waiting) = rooms demo_waiting"
  using createPrivate_outcome [of demo_create 2 5 demo_waiting]
  by (simp add: demo_waiting_def demo_create_def eval_defs)

text \<open>
  C3 as stated fails: the id \<^verbatim>\<open>ab-d\<close> is not made of letters and digits, and
  \<^verbatim>\<open>createPrivate\<close> accepts it, creates the session and answers \<^verbatim>\<open>waiting\<close>.
\<close>

theorem createPrivate_unchecked_characters:
  "spec_valid_id (JStr ''ab-d'') = False
   \<and> outbox (createPrivate 1 [(''type'', JStr ''createPrivate''), (''roomId'', JStr ''ab-d'')] 0 state0) =
       [(1, msg_waiting)]
   \<and> rooms (createPrivate 1 [(''type'', JStr ''createPrivate''), (''roomId'', JStr ''ab-d'')] 0 state0) =
       [(JStr ''ab-d'', \<lparr>players = [1], isPrivate = True, createdAt = 0,
                          ready = \<lparr>p1 = False, p2 = False\<rparr>\<rparr>)]"
  by (simp add: spec_valid_id_def alnum_def createPrivate_def get_prop_def isValidRoomId_def
      state0_def conn0_def rooms_create_def set_roomId_def set_displayName_def send_def
      isOpen_def js_or_def Let_def)

lemma joinPrivate_single:
  assumes "isValidRoomId (get_prop d ''roomId'')"
    and "map_of (rooms s) (get_prop d ''roomId'') = Some room"
    and "players room = [creator]"
    and "stringifies (js_or (get_prop d ''displayName'') (JStr ''Player''))"
    and "creator = w \<or> stringifies (ws_displayName (conns s creator))"
  shows "fst (joinPrivate w d s) = Inr ()"
    and "rooms (snd (joinPrivate w d s)) =
           AList.update (get_prop d ''roomId'') (room\<lparr>players := [creator, w]\<rparr>) (rooms s)"
    and "ws_roomId (conns (snd (joinPrivate w d s)) w) = get_prop d ''roomId''"
    and "outbox (snd (joinPrivate w d s)) = outbox s @ deliver s
           [(creator, msg_matchFound (get_prop d ''roomId'') True
               (if w = creator then JStr ''Opponent''
                else js_or (get_prop d ''displayName'') (JStr ''Player''))),
            (w, msg_matchFound (get_prop d ''roomId'') False
               (if w = creator then JStr ''Opponent''
                else js_or (ws_displayName (conns s creator)) (JStr ''Opponent'')))]"
proof -
  let ?s1 = "set_displayName w (js_or (get_prop d ''displayName'') (JStr ''Player'')) s"
  have n: "names_stringify [creator, w] ?s1"
    using assms(4,5) by (auto simp: names_stringify_pair)
  have j: "rooms_join (get_prop d ''roomId'') w ?s1 =
      (Inr True, announce (get_prop d ''roomId'') [creator, w]
         (set_roomId w (get_prop d ''roomId'')
            (?s1\<lparr>rooms := AList.update (get_prop d ''roomId'')
                 (room\<lparr>players := [creator, w]\<rparr>) (rooms ?s1)\<rparr>)))"
    using assms(2,3) n by (intro rooms_join_single) simp_all
  show "fst (joinPrivate w d s) = Inr ()"
    using assms(1-3) by (simp add: joinPrivate_def Let_def j)
  show "rooms (snd (joinPrivate w d s)) =
           AList.update (get_prop d ''roomId'') (room\<lparr>players := [creator, w]\<rparr>) (rooms s)"
    using assms(1-3) by (simp add: joinPrivate_def Let_def j)
  show "ws_roomId (conns (snd (joinPrivate w d s)) w) = get_prop d ''roomId''"
    using assms(1-3) by (simp add: joinPrivate_def Let_def j)
  show "outbox (snd (joinPrivate w d s)) = outbox s @ deliver s
           [(creator, msg_matchFound (get_prop d ''roomId'') True
               (if w = creator then JStr ''Opponent''
                else js_or (get_prop d ''displayName'') (JStr ''Player''))),
            (w, msg_matchFound (get_prop d ''roomId'') False
               (if w = creator then JStr ''Opponent''
                else js_or (ws_displayName (conns s creator)) (JStr ''Opponent'')))]"
    using assms(1-3)
    by (simp add: joinPrivate_def Let_def j outbox_announce matchFound_list_pair opponentName_pair)
qed


text \<open>
  When the display name of the message has no string, the joiner is put into the session
  and the handler throws at the log line: nothing is announced, and the listener answers
  the joiner with the error \<^verbatim>\<open>Server error occurred\<close>.
\<close>

lemma joinPrivate_throws:
  assumes "isValidRoomId (get_prop d ''roomId'')"
    and "map_of (rooms s) (get_prop d ''roomId'') = Some room"
    and "length (players room) < 2"
    and "\<not> stringifies (js_or (get_prop d ''displayName'') (JStr ''Player''))"
  shows "fst (joinPrivate w d s) = Inl TypeError"
    and "rooms (snd (joinPrivate w d s)) =
           AList.update (get_prop d ''roomId'') (room\<lparr>players := players room @ [w]\<rparr>) (rooms s)"
    and "outbox (snd (joinPrivate w d s)) = outbox s"
    and "outbox (on_message_joinPrivate w d s) =
           outbox s @ deliver s [(w, msg_error ''Server error occurred'')]"
proof -
  let ?s1 = "set_displayName w (js_or (get_prop d ''displayName'') (JStr ''Player'')) s"
  have n: "\<not> names_stringify (players room @ [w]) ?s1"
    using assms(4) by (simp add: names_stringify_def)
  have j: "rooms_join (get_prop d ''roomId'') w ?s1 =
      (Inl TypeError,
       set_roomId w (get_prop d ''roomId'')
         (?s1\<lparr>rooms := AList.update (get_prop d ''roomId'')
              (room\<lparr>players := players room @ [w]\<rparr>) (rooms ?s1)\<rparr>))"
    using assms(2,3) n by (intro rooms_join_throws) simp_all
  have e: "joinPrivate w d s =
      (Inl TypeError,
       set_roomId w (get_prop d ''roomId'')
         (?s1\<lparr>rooms := AList.update (get_prop d ''roomId'')
              (room\<lparr>players := players room @ [w]\<rparr>) (rooms ?s1)\<rparr>))"
    using assms(1-3) by (simp add: joinPrivate_def Let_def j)
  show "fst (joinPrivate w d s) = Inl TypeError" by (simp add: e)
  show "rooms (snd (joinPrivate w d s)) =
           AList.update (get_prop d ''roomId'') (room\<lparr>players := players room @ [w]\<rparr>) (rooms s)"
    by (simp add: e)
  show "outbox (snd (joinPrivate w d s)) = outbox s" by (simp add: e)
  show "outbox (on_message_joinPrivate w d s) =
           outbox s @ deliver s [(w, msg_error ''Server error occurred'')]"
    by (simp add: on_message_joinPrivate_def e outbox_send)
qed




subsection \<open>A connection that joins its own session\<close>

text \<open>
  \<^verbatim>\<open>joinPrivate\<close> does not compare the joining connection with the participant of the
  session: when \<open>c\<close> is the only participant of a session and joins it under the
  session's id (an id of \<^verbatim>\<open>createPrivate\<close>, so a string of 4 to 12 characters:
  \<open>waiting_room_id_checked\<close> below), both slots of the session hold \<open>c\<close> afterwards,
  whatever the display name. With a display name that has a string the join succeeds
  and \<open>c\<close> is sent both \<^verbatim>\<open>matchFound\<close> messages, if its transport is open.
\<close>

lemma joinPrivate_self_slots:
  assumes "isValidRoomId (get_prop d ''roomId'')"
    and "map_of (rooms s) (get_prop d ''roomId'') = Some room"
    and "players room = [c]"
  shows "map_of (rooms (snd (joinPrivate c d s))) (get_prop d ''roomId'') =
           Some (room\<lparr>players := [c, c]\<rparr>)"
  using assms by (simp add: joinPrivate_def Let_def rooms_join_rooms)

lemma joinPrivate_self_named:
  assumes "isValidRoomId (get_prop d ''roomId'')"
    and "map_of (rooms s) (get_prop d ''roomId'') = Some room"
    and "players room = [c]"
    and "stringifies (js_or (get_prop d ''displayName'') (JStr ''Player''))"
  shows "fst (joinPrivate c d s) = Inr ()
       \<and> outbox (snd (joinPrivate c d s)) = outbox s @ deliver s
           [(c, msg_matchFound (get_prop d ''roomId'') True (JStr ''Opponent'')),
            (c, msg_matchFound (get_prop d ''roomId'') False (JStr ''Opponent''))]"
  using assms joinPrivate_single [of d s room c c] by simp

text \<open>
  C10 (the code fails the claim). The claim: for every connection that is the only
  participant of a session, its own \<^verbatim>\<open>joinPrivate\<close> for the session succeeds. Connection
  1 waits in its session and asks to join it with the display name
  \<^verbatim>\<open>{"toString": null}\<close>, which \<^verbatim>\<open>createPrivate\<close> would accept. \<^verbatim>\<open>rooms.join\<close> puts
  connection 1 into the second slot and throws at its log line: no \<^verbatim>\<open>matchFound\<close> is
  sent, and the listener answers \<^verbatim>\<open>Server error occurred\<close>.
\<close>

theorem joinPrivate_self_throws:
  "rooms demo_waiting =
     [(JStr ''ABCD1234'', \<lparr>players = [1], isPrivate = True, createdAt = 0,
                             ready = \<lparr>p1 = False, p2 = False\<rparr>\<rparr>)]
   \<and> fst (joinPrivate 1 demo_join_unnamed demo_waiting) = Inl TypeError
   \<and> rooms (snd (joinPrivate 1 demo_join_unnamed demo_waiting)) =
     [(JStr ''ABCD1234'', \<lparr>players = [1, 1], isPrivate = True, createdAt = 0,
                             ready = \<lparr>p1 = False, p2 = False\<rparr>\<rparr>)]
   \<and> outbox (snd (joinPrivate 1 demo_join_unnamed demo_waiting)) = outbox demo_waiting
   \<and> outbox (on_message_joinPrivate 1 demo_join_unnamed demo_waiting) =
       outbox demo_waiting @ [(1, msg_error ''Server error occurred'')]"
  by (simp add: demo_waiting_eq demo_join_unnamed_def joinPrivate_def get_prop_def
      isValidRoomId_def conn0_def set_roomId_def set_displayName_def send_def isOpen_def
      js_or_def Let_def rooms_join_def names_stringify_def guarded_def
      on_message_joinPrivate_def)

section \<open>Public matchmaking\<close>

lemma joinPublicQueue_empty:
  assumes "filter (isOpen s) (waitingPlayers s) = []"
  shows "joinPublicQueue w rnd now s =
           (Inr (), send (Some w) msg_waiting (s\<lparr>waitingPlayers := [w]\<rparr>))"
  using assms by (simp add: joinPublicQueue_def Let_def)

lemma filter_head_open: "filter (isOpen s) q = opponent # rest \<Longrightarrow> isOpen s opponent"
proof -
  assume "filter (isOpen s) q = opponent # rest"
  then have "opponent \<in> set (filter (isOpen s) q)" by simp
  then show ?thesis by simp
qed

text \<open>
  The state in which \<^verbatim>\<open>joinPublicQueue\<close> calls \<^verbatim>\<open>rooms.join\<close>: the session of the
  opponent is in the table and both display names are set.
\<close>

lemma matched_names:
  "names_stringify [opponent, w]
     (set_displayName w (js_or (ws_displayName (conns s w)) (JStr ''Player''))
        (set_displayName opponent (js_or (ws_displayName (conns s opponent)) (JStr ''Player''))
           (rooms_create roomId opponent False now (s\<lparr>waitingPlayers := rest\<rparr>))))
   \<longleftrightarrow> stringifies (ws_displayName (conns s opponent)) \<and> stringifies (ws_displayName (conns s w))"
  by (auto simp: names_stringify_def set_displayName_def rooms_create_def set_roomId_def)

lemma matched_join:
  assumes "stringifies (ws_displayName (conns s opponent))"
    and "stringifies (ws_displayName (conns s w))"
  shows "rooms_join (JStr (generateRoomId rnd)) w
           (set_displayName w (js_or (ws_displayName (conns s w)) (JStr ''Player''))
              (set_displayName opponent (js_or (ws_displayName (conns s opponent)) (JStr ''Player''))
                 (rooms_create (JStr (generateRoomId rnd)) opponent False now
                    (s\<lparr>waitingPlayers := rest\<rparr>)))) =
           (Inr True, announce (JStr (generateRoomId rnd)) [opponent, w]
              (set_roomId w (JStr (generateRoomId rnd))
                 ((set_displayName w (js_or (ws_displayName (conns s w)) (JStr ''Player''))
                     (set_displayName opponent
                        (js_or (ws_displayName (conns s opponent)) (JStr ''Player''))
                        (rooms_create (JStr (generateRoomId rnd)) opponent False now
                           (s\<lparr>waitingPlayers := rest\<rparr>))))\<lparr>rooms :=
                    AList.update (JStr (generateRoomId rnd))
                      ((new_room opponent False now)\<lparr>players := [opponent, w]\<rparr>) (rooms s)\<rparr>)))"
  using assms
  by (subst rooms_join_single [where creator = opponent and room = "new_room opponent False now"])
     (simp_all add: new_room_def matched_names)

lemma matched_join_throws:
  assumes "\<not> (stringifies (ws_displayName (conns s opponent))
              \<and> stringifies (ws_displayName (conns s w)))"
  shows "rooms_join (JStr (generateRoomId rnd)) w
           (set_displayName w (js_or (ws_displayName (conns s w)) (JStr ''Player''))
              (set_displayName opponent (js_or (ws_displayName (conns s opponent)) (JStr ''Player''))
                 (rooms_create (JStr (generateRoomId rnd)) opponent False now
                    (s\<lparr>waitingPlayers := rest\<rparr>)))) =
           (Inl TypeError,
            set_roomId w (JStr (generateRoomId rnd))
              ((set_displayName w (js_or (ws_displayName (conns s w)) (JStr ''Player''))
                  (set_displayName opponent
                     (js_or (ws_displayName (conns s opponent)) (JStr ''Player''))
                     (rooms_create (JStr (generateRoomId rnd)) opponent False now
                        (s\<lparr>waitingPlayers := rest\<rparr>))))\<lparr>rooms :=
                 AList.update (JStr (generateRoomId rnd))
                   ((new_room opponent False now)\<lparr>players := [opponent, w]\<rparr>) (rooms s)\<rparr>))"
  using assms
  by (subst rooms_join_throws [where room = "new_room opponent False now"])
     (simp_all add: new_room_def matched_names)

lemma joinPublicQueue_match:
  assumes "filter (isOpen s) (waitingPlayers s) = opponent # rest"
    and "stringifies (ws_displayName (conns s opponent))"
    and "stringifies (ws_displayName (conns s w))"
  shows "joinPublicQueue w rnd now s =
           (Inr (),
            announce (JStr (generateRoomId rnd)) [opponent, w]
              (snd (rooms_join (JStr (generateRoomId rnd)) w
                 (set_displayName w (js_or (ws_displayName (conns s w)) (JStr ''Player''))
                   (set_displayName opponent
                      (js_or (ws_displayName (conns s opponent)) (JStr ''Player''))
                      (rooms_create (JStr (generateRoomId rnd)) opponent False now
                         (s\<lparr>waitingPlayers := rest\<rparr>)))))))"
  using assms
  by (simp add: joinPublicQueue_def Let_def matched_join new_room_def)

lemma joinPublicQueue_throws:
  assumes "filter (isOpen s) (waitingPlayers s) = opponent # rest"
    and "\<not> (stringifies (ws_displayName (conns s opponent))
              \<and> stringifies (ws_displayName (conns s w)))"
  shows "joinPublicQueue w rnd now s =
           (Inl TypeError,
            snd (rooms_join (JStr (generateRoomId rnd)) w
                 (set_displayName w (js_or (ws_displayName (conns s w)) (JStr ''Player''))
                   (set_displayName opponent
                      (js_or (ws_displayName (conns s opponent)) (JStr ''Player''))
                      (rooms_create (JStr (generateRoomId rnd)) opponent False now
                         (s\<lparr>waitingPlayers := rest\<rparr>))))))"
proof -
  have "fst (joinPublicQueue w rnd now s) = Inl TypeError"
    using assms(1) matched_join_throws [OF assms(2), of rnd now rest]
    by (auto simp: joinPublicQueue_def Let_def split: sum.split)
  moreover have "snd (joinPublicQueue w rnd now s) =
      snd (rooms_join (JStr (generateRoomId rnd)) w
             (set_displayName w (js_or (ws_displayName (conns s w)) (JStr ''Player''))
               (set_displayName opponent
                  (js_or (ws_displayName (conns s opponent)) (JStr ''Player''))
                  (rooms_create (JStr (generateRoomId rnd)) opponent False now
                     (s\<lparr>waitingPlayers := rest\<rparr>)))))"
    using assms(1) matched_join_throws [OF assms(2), of rnd now rest]
    by (auto simp: joinPublicQueue_def Let_def split: sum.split)
  ultimately show ?thesis
    by (simp add: prod_eq_iff)
qed

lemma rooms_joinPublicQueue_match:
  assumes "filter (isOpen s) (waitingPlayers s) = opponent # rest"
  shows "rooms (snd (joinPublicQueue w rnd now s)) =
           AList.update (JStr (generateRoomId rnd))
             \<lparr>players = [opponent, w], isPrivate = False, createdAt = now,
              ready = \<lparr>p1 = False, p2 = False\<rparr>\<rparr> (rooms s)"
proof (cases "stringifies (ws_displayName (conns s opponent))
              \<and> stringifies (ws_displayName (conns s w))")
  case True
  then show ?thesis
    using assms by (simp add: joinPublicQueue_match matched_join new_room_def)
next
  case False
  then show ?thesis
    using assms matched_join_throws [OF False]
    by (simp add: joinPublicQueue_throws new_room_def)
qed

lemma waitingPlayers_joinPublicQueue:
  "waitingPlayers (snd (joinPublicQueue w rnd now s)) =
     (case filter (isOpen s) (waitingPlayers s) of [] \<Rightarrow> [w] | opponent # rest \<Rightarrow> rest)"
proof (cases "filter (isOpen s) (waitingPlayers s)")
  case Nil
  then show ?thesis by (simp add: joinPublicQueue_empty)
next
  case (Cons opponent rest)
  show ?thesis
  proof (cases "stringifies (ws_displayName (conns s opponent))
                \<and> stringifies (ws_displayName (conns s w))")
    case True
    then show ?thesis
      using Cons by (simp add: joinPublicQueue_match)
  next
    case False
    then show ?thesis
      using Cons by (simp add: joinPublicQueue_throws)
  qed
qed

text \<open>
  C9 (amended). When \<^verbatim>\<open>joinPublicQueue\<close> pairs the arrival \<open>w\<close> with the queued
  \<open>opponent\<close> and the display names of the two have strings, \<^verbatim>\<open>rooms.join\<close> sends one
  \<^verbatim>\<open>matchFound\<close> to each slot of the new session whose transport is open, and the loop
  that follows sends the same messages again: the same room id, \<^verbatim>\<open>isCaller\<close> true for
  the opponent and false for the arrival, the same names. The opponent's transport is
  open (the queue was just pruned), so the opponent is sent two copies; the arrival is
  sent two copies if its transport is open and none otherwise.
\<close>

theorem joinPublicQueue_matchFound_twice:
  assumes "filter (isOpen s) (waitingPlayers s) = opponent # rest"
    and "stringifies (ws_displayName (conns s opponent))"
    and "stringifies (ws_displayName (conns s w))"
  shows "(let roomId = JStr (generateRoomId rnd);
              named = (\<lambda>p. js_or (ws_displayName (conns s p)) (JStr ''Player''));
              to_opponent = (opponent, msg_matchFound roomId True
                               (if w = opponent then JStr ''Opponent'' else named w));
              to_arrival = (w, msg_matchFound roomId False
                               (if w = opponent then JStr ''Opponent'' else named opponent));
              before_join = set_displayName w (named w)
                              (set_displayName opponent (named opponent)
                                 (rooms_create roomId opponent False now
                                    (s\<lparr>waitingPlayers := rest\<rparr>)));
              joined = snd (rooms_join roomId w before_join)
          in isOpen s opponent
           \<and> outbox before_join = outbox s
           \<and> fst (rooms_join roomId w before_join) = Inr True
           \<and> outbox joined = outbox s @ deliver s [to_opponent, to_arrival]
           \<and> joinPublicQueue w rnd now s = (Inr (), announce roomId [opponent, w] joined)
           \<and> outbox (snd (joinPublicQueue w rnd now s)) =
               outbox s @ deliver s [to_opponent, to_arrival] @ deliver s [to_opponent, to_arrival]
           \<and> deliver s [to_opponent, to_arrival] =
               (if isOpen s w then [to_opponent, to_arrival] else [to_opponent]))"
proof -
  let ?rid = "JStr (generateRoomId rnd)"
  let ?named = "\<lambda>p. js_or (ws_displayName (conns s p)) (JStr ''Player'')"
  let ?pre = "set_displayName w (?named w)
                (set_displayName opponent (?named opponent)
                   (rooms_create ?rid opponent False now (s\<lparr>waitingPlayers := rest\<rparr>)))"
  let ?joined = "snd (rooms_join ?rid w ?pre)"
  let ?m1 = "(opponent, msg_matchFound ?rid True (if w = opponent then JStr ''Opponent'' else ?named w))"
  let ?m2 = "(w, msg_matchFound ?rid False (if w = opponent then JStr ''Opponent'' else ?named opponent))"
  note mj = matched_join [OF assms(2,3), of rnd now rest]
  have op: "isOpen s opponent"
    using assms(1) by (rule filter_head_open)
  have f: "fst (rooms_join ?rid w ?pre) = Inr True"
    by (simp add: mj)
  have j: "?joined = announce ?rid [opponent, w]
              (set_roomId w ?rid (?pre\<lparr>rooms := AList.update ?rid
                 ((new_room opponent False now)\<lparr>players := [opponent, w]\<rparr>) (rooms s)\<rparr>))"
    by (simp add: mj)
  have oj: "outbox ?joined = outbox s @ deliver s [?m1, ?m2]"
    by (simp add: j outbox_announce matchFound_list_pair opponentName_pair)
  have cj: "conns ?joined = conns (set_roomId w ?rid ?pre)"
    by (simp add: j set_roomId_def)
  have dj: "deliver ?joined = deliver s"
    by (simp add: j deliver_conns [OF announce_frame(2)])
  have nm: "matchFound_list ?rid [opponent, w] ?joined [(0, opponent), (Suc 0, w)] = [?m1, ?m2]"
    by (simp add: matchFound_list_pair opponentName_pair cj)
  have e: "joinPublicQueue w rnd now s = (Inr (), announce ?rid [opponent, w] ?joined)"
    using assms by (rule joinPublicQueue_match)
  have oe: "outbox (snd (joinPublicQueue w rnd now s)) =
              outbox s @ deliver s [?m1, ?m2] @ deliver s [?m1, ?m2]"
    by (simp only: e snd_conv outbox_announce oj dj) (simp add: nm)
  have dl: "deliver s [?m1, ?m2] = (if isOpen s w then [?m1, ?m2] else [?m1])"
    using op by (simp add: deliver_def)
  show ?thesis
    unfolding Let_def using op f oj e oe dl by simp
qed

theorem joinPublicQueue_matchFound_twice_witness:
  "filter (isOpen demo_queued) (waitingPlayers demo_queued) = [1]
   \<and> stringifies (ws_displayName (conns demo_queued 1))
   \<and> stringifies (ws_displayName (conns demo_queued 2))
   \<and> outbox (snd (joinPublicQueue 2 ''0.4fzyo82mvyr'' 5 demo_queued)) =
     [(1, msg_waiting),
      (1, msg_matchFound (JStr ''4FZYO82M'') True (JStr ''Player'')),
      (2, msg_matchFound (JStr ''4FZYO82M'') False (JStr ''Ann'')),
      (1, msg_matchFound (JStr ''4FZYO82M'') True (JStr ''Player'')),
      (2, msg_matchFound (JStr ''4FZYO82M'') False (JStr ''Ann''))]"
  using joinPublicQueue_matchFound_twice [of demo_queued 1 "[]" 2 "''0.4fzyo82mvyr''" 5]
  by (simp add: demo_queued_def joinPublic_def joinPublicQueue_def eval_defs
      generateRoomId_def substring_def toUpperCase_def toUpperChar_def)

text \<open>
  C9 as stated fails in two ways. When the arrival's transport is closing, it is sent
  no \<^verbatim>\<open>matchFound\<close> at all: the two copies of the opponent are all that is sent. When
  the arrival's display name has no string, \<^verbatim>\<open>rooms.join\<close> throws after it has put the
  arrival into the session: neither loop runs, no \<^verbatim>\<open>matchFound\<close> is sent, and the
  listener answers the arrival with \<^verbatim>\<open>Server error occurred\<close>.
\<close>

theorem joinPublicQueue_matchFound_missing:
  "filter (isOpen demo_queued_closing) (waitingPlayers demo_queued_closing) = [1]
   \<and> ws_readyState (conns demo_queued_closing 2) = CLOSING
   \<and> outbox (snd (joinPublicQueue 2 ''0.4fzyo82mvyr'' 5 demo_queued_closing)) =
     [(1, msg_waiting),
      (1, msg_matchFound (JStr ''4FZYO82M'') True (JStr ''Player'')),
      (1, msg_matchFound (JStr ''4FZYO82M'') True (JStr ''Player''))]
   \<and> filter (isOpen demo_queued) (waitingPlayers demo_queued) = [1]
   \<and> fst (joinPublic 2 demo_enqueue_unnamed ''0.4fzyo82mvyr'' 5 demo_queued) = Inl TypeError
   \<and> rooms (snd (joinPublic 2 demo_enqueue_unnamed ''0.4fzyo82mvyr'' 5 demo_queued)) =
       [(JStr ''4FZYO82M'', \<lparr>players = [1, 2], isPrivate = False, createdAt = 5,
                               ready = \<lparr>p1 = False, p2 = False\<rparr>\<rparr>)]
   \<and> outbox (on_message_joinPublic 2 demo_enqueue_unnamed ''0.4fzyo82mvyr'' 5 demo_queued) =
     [(1, msg_waiting), (2, msg_error ''Server error occurred'')]"
  by (simp add: demo_queued_closing_def demo_queued_def demo_enqueue_unnamed_def
      joinPublic_def joinPublicQueue_def eval_defs
      generateRoomId_def substring_def toUpperCase_def toUpperChar_def)

subsection \<open>The queue\<close>

lemma indexOf_absent: "x \<notin> set xs \<Longrightarrow> indexOf xs x = - 1"
  by (induction xs) auto

lemma indexOf_present: "x \<in> set xs \<Longrightarrow> 0 \<le> indexOf xs x \<and> nat (indexOf xs x) < length xs"
  by (induction xs) (auto simp: Let_def nat_add_distrib)

lemma splice1_indexOf: "x \<in> set xs \<Longrightarrow> splice1 xs (nat (indexOf xs x)) = remove1 x xs"
proof (induction xs)
  case Nil
  then show ?case by simp
next
  case (Cons y ys)
  show ?case
  proof (cases "y = x")
    case True
    then show ?thesis by (simp add: splice1_def)
  next
    case False
    with Cons.prems have mem: "x \<in> set ys" by simp
    from indexOf_present [OF mem] have nn: "0 \<le> indexOf ys x" by simp
    then have ne: "indexOf ys x \<noteq> - 1" by arith
    have "nat (indexOf ys x + 1) = Suc (nat (indexOf ys x))" using nn by arith
    with False ne Cons.IH [OF mem] show ?thesis
      by (simp add: splice1_def Let_def)
  qed
qed

lemma waitingPlayers_removeFromQueue:
  "waitingPlayers (removeFromQueue w s) = remove1 w (waitingPlayers s)"
proof (cases "w \<in> set (waitingPlayers s)")
  case True
  from indexOf_present [OF True] have "indexOf (waitingPlayers s) w > - 1" by arith
  with True show ?thesis by (simp add: removeFromQueue_def Let_def splice1_indexOf)
next
  case False
  then show ?thesis
    by (simp add: removeFromQueue_def Let_def indexOf_absent remove1_idem)
qed

lemma distinct_queue_step: "distinct (waitingPlayers s) \<Longrightarrow> distinct (waitingPlayers (queue_step x s))"
proof (cases x)
  case (EnqueuePublic w rnd now)
  assume d: "distinct (waitingPlayers s)"
  then have df: "distinct (filter (isOpen s) (waitingPlayers s))" by simp
  show ?thesis
    using df by (cases "filter (isOpen s) (waitingPlayers s)")
      (simp_all add: EnqueuePublic waitingPlayers_joinPublicQueue)
next
  case (Dequeue w)
  assume "distinct (waitingPlayers s)"
  then show ?thesis by (simp add: Dequeue waitingPlayers_removeFromQueue)
next
  case (Transport w r)
  assume "distinct (waitingPlayers s)"
  then show ?thesis by (simp add: Transport)
qed

lemma distinct_run_queue: "distinct (waitingPlayers s) \<Longrightarrow> distinct (waitingPlayers (run_queue ops s))"
  unfolding run_queue_def
  by (induction ops arbitrary: s) (simp_all add: distinct_queue_step)

text \<open>
  C1 (amended). Over every sequence of \<^verbatim>\<open>joinPublicQueue\<close> and \<^verbatim>\<open>removeFromQueue\<close>
  calls, with transports changing state in between, a queue that starts without
  duplicates (it starts empty) never holds a connection twice. When an arrival \<open>w\<close>
  finds a live queued \<open>opponent\<close>, the session created has exactly the two participant
  slots \<open>[opponent, w]\<close>; when it finds none, no session is created. The two slots hold
  different connections when the arrival is not itself waiting in the queue; nothing
  stops a connection that is waiting from arriving again.
\<close>

theorem public_queue_sessions:
  assumes "distinct (waitingPlayers s)"
  shows "distinct (waitingPlayers (run_queue ops s))
       \<and> (filter (isOpen (run_queue ops s)) (waitingPlayers (run_queue ops s)) = [] \<longrightarrow>
            rooms (snd (joinPublicQueue w rnd now (run_queue ops s))) = rooms (run_queue ops s))
       \<and> (filter (isOpen (run_queue ops s)) (waitingPlayers (run_queue ops s)) = opponent # rest \<longrightarrow>
            map_of (rooms (snd (joinPublicQueue w rnd now (run_queue ops s)))) (JStr (generateRoomId rnd)) =
              Some \<lparr>players = [opponent, w], isPrivate = False, createdAt = now,
                    ready = \<lparr>p1 = False, p2 = False\<rparr>\<rparr>
            \<and> (w \<notin> set (waitingPlayers (run_queue ops s)) \<longrightarrow> opponent \<noteq> w))"
proof -
  let ?t = "run_queue ops s"
  have a: "distinct (waitingPlayers ?t)"
    using assms by (rule distinct_run_queue)
  have b: "rooms (snd (joinPublicQueue w rnd now ?t)) = rooms ?t"
    if "filter (isOpen ?t) (waitingPlayers ?t) = []"
    using that by (simp add: joinPublicQueue_empty)
  have c: "map_of (rooms (snd (joinPublicQueue w rnd now ?t))) (JStr (generateRoomId rnd)) =
              Some \<lparr>players = [opponent, w], isPrivate = False, createdAt = now,
                    ready = \<lparr>p1 = False, p2 = False\<rparr>\<rparr>"
    if "filter (isOpen ?t) (waitingPlayers ?t) = opponent # rest"
    using that by (simp add: rooms_joinPublicQueue_match)
  have d: "opponent \<noteq> w"
    if f: "filter (isOpen ?t) (waitingPlayers ?t) = opponent # rest"
      and n: "w \<notin> set (waitingPlayers ?t)"
  proof -
    have "opponent \<in> set (filter (isOpen ?t) (waitingPlayers ?t))" by (simp add: f)
    then have "opponent \<in> set (waitingPlayers ?t)" by simp
    with n show ?thesis by blast
  qed
  from a b c d show ?thesis by blast
qed

theorem public_queue_sessions_witness:
  "distinct (waitingPlayers state0)
   \<and> waitingPlayers (run_queue [EnqueuePublic 1 ''0.8cjnb1qgx2e'' 0] state0) = [1]
   \<and> map_of (rooms (snd (joinPublicQueue 2 ''0.4fzyo82mvyr'' 5
        (run_queue [EnqueuePublic 1 ''0.8cjnb1qgx2e'' 0] state0)))) (JStr ''4FZYO82M'') =
       Some \<lparr>players = [1, 2], isPrivate = False, createdAt = 5,
             ready = \<lparr>p1 = False, p2 = False\<rparr>\<rparr>"
  using public_queue_sessions [of state0 "[EnqueuePublic 1 ''0.8cjnb1qgx2e'' 0]" 2
      "''0.4fzyo82mvyr''" 5 1 "[]"]
  by (simp add: run_queue_def joinPublicQueue_def eval_defs
      generateRoomId_def substring_def toUpperCase_def toUpperChar_def)

text \<open>
  C1 as stated fails: a connection that is waiting and sends \<^verbatim>\<open>joinPublic\<close> again is
  paired with itself, and both slots of the session hold it.
\<close>

theorem public_queue_self_match:
  "map_of (rooms (run_queue [EnqueuePublic 1 ''0.8cjnb1qgx2e'' 0,
                             EnqueuePublic 1 ''0.4fzyo82mvyr'' 5] state0)) (JStr ''4FZYO82M'') =
     Some \<lparr>players = [1, 1], isPrivate = False, createdAt = 5,
           ready = \<lparr>p1 = False, p2 = False\<rparr>\<rparr>"
  by (simp add: run_queue_def joinPublicQueue_def eval_defs
      generateRoomId_def substring_def toUpperCase_def toUpperChar_def)

subsection \<open>Generated ids\<close>

text \<open>
  \<^verbatim>\<open>substring(2, 10)\<close> keeps the characters of the rendering after \<^verbatim>\<open>0.\<close>, eight of
  them at most and fewer when the rendering is short.
\<close>

lemma generateRoomId_length: "length (generateRoomId rnd) = min 8 (length rnd - 2)"
  unfolding generateRoomId_def toUpperCase_def substring_def Let_def
  by (simp add: min_def max_def) arith

text \<open>
  C8 (the code fails the claim). The claim: for every value of the random source, the
  session id generated for public matchmaking, and every request id minted by the rematch
  coordinator, is a string of 4 to 12 characters. When \<^verbatim>\<open>Math.random()\<close> returns 0.5,
  its rendering in base 36 is \<^verbatim>\<open>0.i\<close> and \<^verbatim>\<open>generateRoomId\<close> returns the one
  character \<^verbatim>\<open>I\<close>, which \<^verbatim>\<open>isValidRoomId\<close> rejects (for the rendering \<^verbatim>\<open>0\<close> of zero
  it returns the empty string): the public session of connections 1 and 2 is created
  under this id, and a rematch request with no \<^verbatim>\<open>reqId\<close> carries it.
\<close>

theorem generateRoomId_short_render:
  "generateRoomId ''0.i'' = ''I''
   \<and> generateRoomId ''0'' = []
   \<and> isValidRoomId (JStr (generateRoomId ''0.i'')) = False
   \<and> rooms (snd (joinPublicQueue 2 ''0.i'' 5 demo_queued)) =
       [(JStr ''I'', \<lparr>players = [1, 2], isPrivate = False, createdAt = 5,
                      ready = \<lparr>p1 = False, p2 = False\<rparr>\<rparr>)]
   \<and> outbox (handleNewGameRequest 1 demo_ready_bare ''0.i'' demo_paired) =
       outbox demo_paired @ [(2, msg_opponentRequestedNewGame (JStr ''I''))]"
proof -
  have g: "generateRoomId ''0.i'' = ''I''" "generateRoomId ''0'' = []"
    by (simp_all add: generateRoomId_def substring_def toUpperCase_def toUpperChar_def)
  have v: "isValidRoomId (JStr ''I'') = False"
    by (simp add: isValidRoomId_def)
  have q: "filter (isOpen demo_queued) (waitingPlayers demo_queued) = [1]" "rooms demo_queued = []"
    by (simp_all add: demo_queued_def joinPublic_def joinPublicQueue_def eval_defs)
  have r: "rooms (snd (joinPublicQueue 2 ''0.i'' 5 demo_queued)) =
       [(JStr ''I'', \<lparr>players = [1, 2], isPrivate = False, createdAt = 5,
                      ready = \<lparr>p1 = False, p2 = False\<rparr>\<rparr>)]"
    by (simp add: rooms_joinPublicQueue_match [OF q(1)] q(2) g)
  have o: "outbox (handleNewGameRequest 1 demo_ready_bare ''0.i'' demo_paired) =
       outbox demo_paired @ [(2, msg_opponentRequestedNewGame (JStr ''I''))]"
    by (simp add: demo_paired_eq demo_ready_bare_def handleNewGameRequest_def get_prop_def Let_def
        getOpponent_def set_lastNewGameReqId_def isOpen_def conn0_def send_def g)
  from g v r o show ?thesis by simp
qed

section \<open>Relay\<close>

text \<open>
  Between the two participants of the session that the message names, the relay does
  what is expected of it: the message goes unmodified to the other participant if its
  transport is open, and nothing else changes.
\<close>

lemma relaySignal_member:
  assumes "map_of (rooms s) (get_prop d ''roomId'') = Some room"
    and "players room = [a, b]" and "a \<noteq> b" and "w = a \<or> w = b"
  shows "relaySignal w d s = send (Some (if w = a then b else a)) (JObj d) s"
  using assms by (auto simp: relaySignal_def getOpponent_def send_def)

text \<open>
  C2 (the code fails the claim). The claim: relay resolves the sender's own session and
  never delivers a message to a connection outside it. \<^verbatim>\<open>relaySignal\<close> resolves the
  session that the message names and forwards to the first participant that is not the
  sender, without checking that the sender is a participant, as
  \<^verbatim>\<open>handleNewGameRequest\<close> does. Connection 3 is in no session; its \<^verbatim>\<open>offer\<close> naming
  the session of connections 1 and 2 is delivered, unmodified, to connection 1.
\<close>

theorem relay_from_outsider:
  "ws_roomId (conns demo_paired 3) = JUndefined
   \<and> rooms demo_paired =
       [(JStr ''ABCD1234'', \<lparr>players = [1, 2], isPrivate = True, createdAt = 0,
                               ready = \<lparr>p1 = False, p2 = False\<rparr>\<rparr>)]
   \<and> outbox (offer 3 demo_offer demo_paired) = outbox demo_paired @ [(1, JObj demo_offer)]
   \<and> handleNewGameRequest 3 demo_ready ''0.i'' demo_paired = demo_paired"
  by (simp add: demo_paired_eq offer_def relaySignal_def getOpponent_def demo_offer_def
      get_prop_def send_def isOpen_def conn0_def handleNewGameRequest_def demo_ready_def Let_def)

section \<open>Rematch\<close>

lemma broadcastToRoom_pair:
  assumes "map_of (rooms t) roomId = Some room" and "players room = [a, b]"
  shows "broadcastToRoom roomId m None t = send (Some b) m (send (Some a) m t)"
  using assms by (simp add: broadcastToRoom_def)

lemma ready_p1_True: "p1 r \<Longrightarrow> r\<lparr>p1 := True\<rparr> = r"
  by (cases r) simp

lemma ready_p2_True: "p2 r \<Longrightarrow> r\<lparr>p2 := True\<rparr> = r"
  by (cases r) simp

lemma room_ready_same: "room\<lparr>ready := ready room\<rparr> = room"
  by (cases room) simp

lemma handleNewGameRequest_first:
  assumes room: "map_of (rooms s) (get_prop d ''roomId'') = Some room"
    and pl: "players room = [a, b]" and ab: "a \<noteq> b"
  shows "\<not> p2 (ready room) \<Longrightarrow> handleNewGameRequest a d rnd s =
           (if isOpen s b
            then send (Some b) (msg_opponentRequestedNewGame (requestId_of d rnd))
            else (\<lambda>t. t))
             (set_lastNewGameReqId a (requestId_of d rnd)
               (s\<lparr>rooms := AList.update (get_prop d ''roomId'')
                    (room\<lparr>ready := (ready room)\<lparr>p1 := True\<rparr>\<rparr>) (rooms s)\<rparr>))"
    and "p2 (ready room) \<Longrightarrow> handleNewGameRequest a d rnd s =
           clear_lastNewGameReqId [a, b]
             (send (Some b) (msg_startNewGame (requestId_of d rnd))
               (send (Some a) (msg_startNewGame (requestId_of d rnd))
                 ((set_lastNewGameReqId a (requestId_of d rnd) s)
                    \<lparr>rooms := AList.update (get_prop d ''roomId'')
                         (room\<lparr>ready := \<lparr>p1 = False, p2 = False\<rparr>\<rparr>) (rooms s),
                     totalGamesPlayed := totalGamesPlayed s + 1\<rparr>)))"
  using room pl ab
  by (simp_all add: handleNewGameRequest_def Let_def requestId_of_def [symmetric] getOpponent_def
      broadcastToRoom_def) (simp_all add: set_lastNewGameReqId_def)

lemma handleNewGameRequest_second:
  assumes room: "map_of (rooms s) (get_prop d ''roomId'') = Some room"
    and pl: "players room = [a, b]" and ab: "a \<noteq> b"
  shows "\<not> p1 (ready room) \<Longrightarrow> handleNewGameRequest b d rnd s =
           (if isOpen s a
            then send (Some a) (msg_opponentRequestedNewGame (requestId_of d rnd))
            else (\<lambda>t. t))
             (set_lastNewGameReqId b (requestId_of d rnd)
               (s\<lparr>rooms := AList.update (get_prop d ''roomId'')
                    (room\<lparr>ready := (ready room)\<lparr>p2 := True\<rparr>\<rparr>) (rooms s)\<rparr>))"
    and "p1 (ready room) \<Longrightarrow> handleNewGameRequest b d rnd s =
           clear_lastNewGameReqId [a, b]
             (send (Some b) (msg_startNewGame (requestId_of d rnd))
               (send (Some a) (msg_startNewGame (requestId_of d rnd))
                 ((set_lastNewGameReqId b (requestId_of d rnd) s)
                    \<lparr>rooms := AList.update (get_prop d ''roomId'')
                         (room\<lparr>ready := \<lparr>p1 = False, p2 = False\<rparr>\<rparr>) (rooms s),
                     totalGamesPlayed := totalGamesPlayed s + 1\<rparr>)))"
  using room pl ab
  by (simp_all add: handleNewGameRequest_def Let_def requestId_of_def [symmetric] getOpponent_def
      broadcastToRoom_def) (simp_all add: set_lastNewGameReqId_def)

text \<open>
  C4 (amended). In a session with the two participants \<open>a\<close> (first slot) and \<open>b\<close>,
  two different connections, a \<^verbatim>\<open>readyForNewGame\<close> from \<open>w\<close>, one of them, carries the
  request id of the message, or a minted one when the message has none. While the
  opponent's flag is not set, the call sets the caller's flag and the opponent, if its
  transport is open, is sent exactly one \<^verbatim>\<open>opponentRequestedNewGame\<close> with this id;
  nobody else is sent anything, the completed-games counter stays, and when the caller's
  flag was set already the session table does not change at all. When the opponent's
  flag is set, the call completes the round: each of the two whose transport is open is
  sent exactly one \<^verbatim>\<open>startNewGame\<close> with this call's id, both flags are false again,
  the pending request ids of both connections are cleared and the counter goes up by one.
\<close>

theorem rematch_handshake:
  assumes "map_of (rooms s) (get_prop d ''roomId'') = Some room"
    and "players room = [a, b]" and "a \<noteq> b" and "w = a \<or> w = b"
  shows "(let roomId = get_prop d ''roomId'';
              requestId = (if truthy (get_prop d ''reqId'') then get_prop d ''reqId''
                           else JStr (generateRoomId rnd));
              opponent = (if w = a then b else a);
              own_ready = (if w = a then p1 (ready room) else p2 (ready room));
              opponent_ready = (if w = a then p2 (ready room) else p1 (ready room));
              s' = handleNewGameRequest w d rnd s
          in (\<not> opponent_ready \<longrightarrow>
                outbox s' = outbox s @ deliver s [(opponent, msg_opponentRequestedNewGame requestId)]
              \<and> rooms s' = AList.update roomId
                   (room\<lparr>ready := (if w = a then \<lparr>p1 = True, p2 = False\<rparr>
                                    else \<lparr>p1 = False, p2 = True\<rparr>)\<rparr>) (rooms s)
              \<and> (own_ready \<longrightarrow> rooms s' = rooms s)
              \<and> ws_lastNewGameReqId (conns s' w) = requestId
              \<and> totalGamesPlayed s' = totalGamesPlayed s)
           \<and> (opponent_ready \<longrightarrow>
                outbox s' = outbox s @ deliver s [(a, msg_startNewGame requestId),
                                                  (b, msg_startNewGame requestId)]
              \<and> rooms s' = AList.update roomId
                   (room\<lparr>ready := \<lparr>p1 = False, p2 = False\<rparr>\<rparr>) (rooms s)
              \<and> ws_lastNewGameReqId (conns s' a) = JNull
              \<and> ws_lastNewGameReqId (conns s' b) = JNull
              \<and> totalGamesPlayed s' = totalGamesPlayed s + 1))"
proof -
  note first = handleNewGameRequest_first [OF assms(1-3), of rnd]
  note second = handleNewGameRequest_second [OF assms(1-3), of rnd]
  have r1: "(ready room)\<lparr>p1 := True\<rparr> = \<lparr>p1 = True, p2 = False\<rparr>" if "\<not> p2 (ready room)"
    using that by (cases "ready room") simp
  have r2: "(ready room)\<lparr>p2 := True\<rparr> = \<lparr>p1 = False, p2 = True\<rparr>" if "\<not> p1 (ready room)"
    using that by (cases "ready room") simp
  have same1: "AList.update (get_prop d ''roomId'') (room\<lparr>ready := \<lparr>p1 = True, p2 = False\<rparr>\<rparr>) (rooms s) = rooms s"
    if "p1 (ready room)" "\<not> p2 (ready room)"
  proof -
    have "\<lparr>p1 = True, p2 = False\<rparr> = ready room" using that by (cases "ready room") simp
    then show ?thesis by (simp add: room_ready_same update_triv [OF assms(1)])
  qed
  have same2: "AList.update (get_prop d ''roomId'') (room\<lparr>ready := \<lparr>p1 = False, p2 = True\<rparr>\<rparr>) (rooms s) = rooms s"
    if "p2 (ready room)" "\<not> p1 (ready room)"
  proof -
    have "\<lparr>p1 = False, p2 = True\<rparr> = ready room" using that by (cases "ready room") simp
    then show ?thesis by (simp add: room_ready_same update_triv [OF assms(1)])
  qed
  from assms(4) show ?thesis
  proof
    assume w: "w = a"
    show ?thesis
      unfolding Let_def requestId_of_def [symmetric] w
      by (simp add: first r1 same1 outbox_send outbox_send_send deliver_def)
  next
    assume w: "w = b"
    with assms(3) have ne: "b \<noteq> a" by simp
    show ?thesis
      unfolding Let_def requestId_of_def [symmetric] w
      by (simp add: second r2 same2 ne outbox_send outbox_send_send deliver_def)
  qed
qed

text \<open>
  The example: Ann asks first, Bob is told; Ann asking again leaves the table alone; Bob's
  request, without an id, completes the round under a minted id.
\<close>

theorem rematch_handshake_witness:
  "map_of (rooms demo_paired) (JStr ''ABCD1234'') =
     Some \<lparr>players = [1, 2], isPrivate = True, createdAt = 0, ready = \<lparr>p1 = False, p2 = False\<rparr>\<rparr>
   \<and> outbox demo_one_ready = outbox demo_paired @ [(2, msg_opponentRequestedNewGame (JStr ''r1''))]
   \<and> map_of (rooms demo_one_ready) (JStr ''ABCD1234'') =
     Some \<lparr>players = [1, 2], isPrivate = True, createdAt = 0, ready = \<lparr>p1 = True, p2 = False\<rparr>\<rparr>
   \<and> rooms (handleNewGameRequest 1 demo_ready ''0.8cjnb1qgx2e'' demo_one_ready) = rooms demo_one_ready
   \<and> outbox (handleNewGameRequest 2 demo_ready_bare ''0.4fzyo82mvyr'' demo_one_ready) =
       outbox demo_one_ready @ [(1, msg_startNewGame (JStr ''4FZYO82M'')),
                                (2, msg_startNewGame (JStr ''4FZYO82M''))]
   \<and> rooms (handleNewGameRequest 2 demo_ready_bare ''0.4fzyo82mvyr'' demo_one_ready) = rooms demo_paired
   \<and> totalGamesPlayed (handleNewGameRequest 2 demo_ready_bare ''0.4fzyo82mvyr'' demo_one_ready) = 1
   \<and> ws_lastNewGameReqId
        (conns (handleNewGameRequest 2 demo_ready_bare ''0.4fzyo82mvyr'' demo_one_ready) 1) = JNull"
proof -
  have g: "generateRoomId ''0.4fzyo82mvyr'' = ''4FZYO82M''"
    by (simp add: generateRoomId_def substring_def toUpperCase_def toUpperChar_def)
  let ?r0 = "\<lparr>players = [1, 2], isPrivate = True, createdAt = 0, ready = \<lparr>p1 = False, p2 = False\<rparr>\<rparr>"
  let ?r1 = "\<lparr>players = [1, 2], isPrivate = True, createdAt = 0, ready = \<lparr>p1 = True, p2 = False\<rparr>\<rparr>"
  have l0: "map_of (rooms demo_paired) (get_prop demo_ready ''roomId'') = Some ?r0"
    by (simp add: demo_paired_eq demo_ready_def get_prop_def)
  have l1: "map_of (rooms demo_one_ready) (get_prop demo_ready ''roomId'') = Some ?r1"
    by (simp add: demo_one_ready_eq demo_ready_def get_prop_def)
  have l2: "map_of (rooms demo_one_ready) (get_prop demo_ready_bare ''roomId'') = Some ?r1"
    by (simp add: demo_one_ready_eq demo_ready_bare_def get_prop_def)
  have ne: "(1::nat) \<noteq> 2" by simp
  note t0 = rematch_handshake [OF l0 _ ne, of 1 "''0.8cjnb1qgx2e''", unfolded Let_def]
  note t1 = rematch_handshake [OF l1 _ ne, of 1 "''0.8cjnb1qgx2e''", unfolded Let_def]
  note t2 = rematch_handshake [OF l2 _ ne, of 2 "''0.4fzyo82mvyr''", unfolded Let_def]
  have p: "get_prop demo_ready ''roomId'' = JStr ''ABCD1234''"
    "get_prop demo_ready ''reqId'' = JStr ''r1''"
    "get_prop demo_ready_bare ''roomId'' = JStr ''ABCD1234''"
    "get_prop demo_ready_bare ''reqId'' = JUndefined"
    by (simp_all add: demo_ready_def demo_ready_bare_def get_prop_def)
  have io: "isOpen demo_paired w" "isOpen demo_one_ready w" for w
    by (simp_all add: isOpen_def demo_paired_eq demo_one_ready_eq conn0_def)
  have o: "deliver demo_paired = (\<lambda>ms. ms)" "deliver demo_one_ready = (\<lambda>ms. ms)"
    by (simp_all add: fun_eq_iff deliver_def io)
  show ?thesis
    using t0 t1 t2 l0 l1
    by (simp add: p o g demo_one_ready_def [symmetric]) (simp add: demo_paired_eq demo_one_ready_eq)
qed

text \<open>
  C4 as stated fails when the opponent's transport is not open: the request of
  connection 1 sets its flag, the session is in \<open>OneReady\<close>, and connection 2, whose
  transport is closing, is sent nothing.
\<close>

theorem rematch_opponent_not_live:
  "map_of (rooms demo_closing) (JStr ''ABCD1234'') =
     Some \<lparr>players = [1, 2], isPrivate = True, createdAt = 0, ready = \<lparr>p1 = False, p2 = False\<rparr>\<rparr>
   \<and> ws_readyState (conns demo_closing 2) = CLOSING
   \<and> map_of (rooms (handleNewGameRequest 1 demo_ready ''0.8cjnb1qgx2e'' demo_closing)) (JStr ''ABCD1234'') =
     Some \<lparr>players = [1, 2], isPrivate = True, createdAt = 0, ready = \<lparr>p1 = True, p2 = False\<rparr>\<rparr>
   \<and> outbox (handleNewGameRequest 1 demo_ready ''0.8cjnb1qgx2e'' demo_closing) = outbox demo_closing"
  by (simp add: demo_closing_def demo_paired_eq demo_ready_def handleNewGameRequest_def
      get_prop_def Let_def getOpponent_def set_lastNewGameReqId_def isOpen_def conn0_def send_def)

section \<open>Disconnect\<close>

lemma rooms_remove_present:
  "map_of (rooms s) roomId = Some room \<Longrightarrow>
   rooms_remove roomId s = s\<lparr>rooms := AList.delete roomId (rooms s)\<rparr>"
  by (simp add: rooms_remove_def)

lemma handleDisconnect_pair:
  assumes "ws_roomId (conns s w) = roomId" and "truthy roomId"
    and "map_of (rooms s) roomId = Some room"
    and "players room = [a, b]" and "a \<noteq> b" and "w = a \<or> w = b"
  shows "rooms_handleDisconnect w s =
           (send (Some (if w = a then b else a)) msg_opponentDisconnected s)
             \<lparr>rooms := AList.delete roomId (rooms s)\<rparr>"
  using assms
  by (auto simp: rooms_handleDisconnect_def Let_def rooms_remove_present send_def)

lemma absent_relaySignal:
  "map_of (rooms t) (get_prop d ''roomId'') = None \<Longrightarrow> relaySignal c d t = t"
  by (simp add: relaySignal_def getOpponent_def)

lemma absent_handleNewGameRequest:
  "map_of (rooms t) (get_prop d ''roomId'') = None \<Longrightarrow> handleNewGameRequest c d rnd t = t"
  by (simp add: handleNewGameRequest_def Let_def)

lemma absent_joinPrivate:
  assumes "map_of (rooms t) (get_prop d ''roomId'') = None"
  shows "rooms (snd (joinPrivate c d t)) = rooms t"
    and "outbox (snd (joinPrivate c d t)) = outbox t @ deliver t
           [(c, if isValidRoomId (get_prop d ''roomId'') then msg_roomInvalid (get_prop d ''roomId'')
                else msg_error ''Invalid room ID format'')]"
  using assms by (simp_all add: joinPrivate_def Let_def outbox_send)

text \<open>
  C6 (amended). Let \<open>w\<close> be one of the two participants \<open>a\<close>, \<open>b\<close> of the session that
  its \<^verbatim>\<open>roomId\<close> property records (the session it created or joined last; the id is not
  the empty string). When \<open>w\<close> disconnects, the other participant is sent exactly one
  \<^verbatim>\<open>opponentDisconnected\<close> if its transport is open (and nothing otherwise), no one else
  is sent anything, and the session is deleted from the table. In every state \<open>t\<close> where
  the id is absent, as it is right after the disconnect, a relay or a rematch request
  against the id changes nothing, and a \<^verbatim>\<open>joinPrivate\<close> leaves the table as it is and
  answers \<^verbatim>\<open>roomInvalid\<close> (or the format error). The \<^verbatim>\<open>close\<close> event as a whole, which
  first takes \<open>w\<close> out of the queue, has the same effect on table and messages.
\<close>

theorem disconnect_removes_session:
  assumes "ws_roomId (conns s w) = roomId" and "truthy roomId"
    and "map_of (rooms s) roomId = Some room"
    and "players room = [a, b]" and "a \<noteq> b" and "w = a \<or> w = b"
  shows "(let opponent = (if w = a then b else a);
              s' = rooms_handleDisconnect w s
          in outbox s' = outbox s @ deliver s [(opponent, msg_opponentDisconnected)]
           \<and> rooms s' = AList.delete roomId (rooms s)
           \<and> map_of (rooms s') roomId = None
           \<and> rooms (on_close w s) = rooms s'
           \<and> outbox (on_close w s) = outbox s'
           \<and> (map_of (rooms t) roomId = None \<and> get_prop d ''roomId'' = roomId \<longrightarrow>
                 relaySignal c d t = t
               \<and> handleNewGameRequest c d rnd t = t
               \<and> rooms (snd (joinPrivate c d t)) = rooms t
               \<and> outbox (snd (joinPrivate c d t)) = outbox t @ deliver t
                    [(c, if isValidRoomId roomId then msg_roomInvalid roomId
                         else msg_error ''Invalid room ID format'')]))"
proof -
  have e: "rooms_handleDisconnect w s =
      (send (Some (if w = a then b else a)) msg_opponentDisconnected s)
        \<lparr>rooms := AList.delete roomId (rooms s)\<rparr>"
    using assms by (rule handleDisconnect_pair)
  have e': "rooms_handleDisconnect w (removeFromQueue w s) =
      (send (Some (if w = a then b else a)) msg_opponentDisconnected (removeFromQueue w s))
        \<lparr>rooms := AList.delete roomId (rooms (removeFromQueue w s))\<rparr>"
    using assms by (intro handleDisconnect_pair [where room = room]) simp_all
  have d: "deliver (removeFromQueue w s) = deliver s"
    by (rule deliver_conns) simp
  have gone: "map_of (AList.delete roomId (rooms s)) roomId = None"
    by (simp add: delete_conv')
  have after: "relaySignal c d t = t \<and> handleNewGameRequest c d rnd t = t
      \<and> rooms (snd (joinPrivate c d t)) = rooms t
      \<and> outbox (snd (joinPrivate c d t)) = outbox t @ deliver t
           [(c, if isValidRoomId roomId then msg_roomInvalid roomId
                else msg_error ''Invalid room ID format'')]"
    if "map_of (rooms t) roomId = None" and "get_prop d ''roomId'' = roomId"
    using that absent_joinPrivate [of t d c]
    by (simp add: absent_relaySignal absent_handleNewGameRequest)
  show ?thesis
    unfolding Let_def on_close_def e e'
    using after by (simp add: outbox_send gone d)
qed

text \<open>
  The scenario of the specification: Bob disconnects, Ann is told, the session is gone;
  an offer of Ann's is dropped and a third connection finds the id unknown.
\<close>

theorem disconnect_removes_session_witness:
  "ws_roomId (conns demo_paired 2) = JStr ''ABCD1234''
   \<and> map_of (rooms demo_paired) (JStr ''ABCD1234'') =
       Some \<lparr>players = [1, 2], isPrivate = True, createdAt = 0, ready = \<lparr>p1 = False, p2 = False\<rparr>\<rparr>
   \<and> outbox (rooms_handleDisconnect 2 demo_paired) = outbox demo_paired @ [(1, msg_opponentDisconnected)]
   \<and> rooms (rooms_handleDisconnect 2 demo_paired) = []
   \<and> relaySignal 1 demo_offer (rooms_handleDisconnect 2 demo_paired) = rooms_handleDisconnect 2 demo_paired
   \<and> outbox (snd (joinPrivate 3 demo_join (rooms_handleDisconnect 2 demo_paired))) =
       outbox (rooms_handleDisconnect 2 demo_paired) @ [(3, msg_roomInvalid (JStr ''ABCD1234''))]"
proof -
  let ?room = "\<lparr>players = [1, 2], isPrivate = True, createdAt = 0, ready = \<lparr>p1 = False, p2 = False\<rparr>\<rparr>"
  let ?s' = "rooms_handleDisconnect 2 demo_paired"
  have h1: "ws_roomId (conns demo_paired 2) = JStr ''ABCD1234''"
    and h2: "truthy (JStr ''ABCD1234'')"
    and h3: "map_of (rooms demo_paired) (JStr ''ABCD1234'') = Some ?room"
    and h4: "players ?room = [1, 2]" and h5: "(1::nat) \<noteq> 2" and h6: "(2::nat) = 1 \<or> (2::nat) = 2"
    by (simp_all add: demo_paired_eq)
  note t1 = disconnect_removes_session [OF h1 h2 h3 h4 h5 h6, of ?s' demo_offer 1 "''0.i''", unfolded Let_def]
  note t2 = disconnect_removes_session [OF h1 h2 h3 h4 h5 h6, of ?s' demo_join 3 "''0.i''", unfolded Let_def]
  have p: "get_prop demo_offer ''roomId'' = JStr ''ABCD1234''"
    "get_prop demo_join ''roomId'' = JStr ''ABCD1234''"
    by (simp_all add: demo_offer_def demo_join_def get_prop_def)
  have io: "isOpen demo_paired w" for w
    by (simp add: isOpen_def demo_paired_eq conn0_def)
  have o: "deliver demo_paired = (\<lambda>ms. ms)"
    by (simp add: fun_eq_iff deliver_def io)
  have c: "conns ?s' = conns demo_paired"
    using t1 by (simp add: rooms_handleDisconnect_def demo_paired_eq Let_def rooms_remove_def send_def isOpen_def conn0_def)
  have o': "deliver ?s' = (\<lambda>ms. ms)"
    using deliver_conns [OF c] o by simp
  have v: "isValidRoomId (JStr ''ABCD1234'')"
    by (simp add: isValidRoomId_def)
  have r: "rooms demo_paired = [(JStr ''ABCD1234'', ?room)]"
    by (simp add: demo_paired_eq)
  show ?thesis
    using t1 t2 h1 h3 by (simp add: p o o' v r)
qed

text \<open>
  C6 as stated fails for a session that is not the one recorded on the disconnecting
  connection. Connection 1 is the first participant of the session \<^verbatim>\<open>ABCD1234\<close> with
  connection 2, then creates the session \<^verbatim>\<open>WXYZ9876\<close>, which its \<^verbatim>\<open>roomId\<close> now
  records. When connection 1 disconnects, connection 2, whose transport is open, is sent
  nothing and the session \<^verbatim>\<open>ABCD1234\<close> stays in the table.
\<close>

theorem disconnect_other_session_kept:
  "ws_roomId (conns demo_two_rooms 1) = JStr ''WXYZ9876''
   \<and> map_of (rooms demo_two_rooms) (JStr ''ABCD1234'') =
       Some \<lparr>players = [1, 2], isPrivate = True, createdAt = 0, ready = \<lparr>p1 = False, p2 = False\<rparr>\<rparr>
   \<and> isOpen demo_two_rooms 2
   \<and> outbox (on_close 1 demo_two_rooms) = outbox demo_two_rooms
   \<and> map_of (rooms (on_close 1 demo_two_rooms)) (JStr ''ABCD1234'') =
       Some \<lparr>players = [1, 2], isPrivate = True, createdAt = 0, ready = \<lparr>p1 = False, p2 = False\<rparr>\<rparr>"
  by (simp add: demo_two_rooms_def demo_paired_eq createPrivate_def get_prop_def isValidRoomId_def
      rooms_create_def set_roomId_def set_displayName_def send_def isOpen_def conn0_def js_or_def
      Let_def on_close_def removeFromQueue_def rooms_handleDisconnect_def rooms_remove_def)

section \<open>Reaper\<close>

lemma sweep_fold:
  "fold (\<lambda>(roomId, room) rs. if P room then AList.delete roomId rs else rs) xs acc =
     filter (\<lambda>(k, r). \<not> (\<exists>r'. (k, r') \<in> set xs \<and> P r')) acc"
proof (induction xs arbitrary: acc)
  case Nil
  then show ?case by simp
next
  case (Cons x xs)
  obtain k r where x: "x = (k, r)" by (cases x)
  show ?case
  proof (cases "P r")
    case True
    then show ?thesis
      by (auto simp: x Cons.IH AList.delete_eq intro!: filter_cong)
  next
    case False
    then show ?thesis
      by (auto simp: x Cons.IH intro!: filter_cong)
  qed
qed

lemma sweep_distinct:
  assumes "distinct (map fst xs)"
  shows "filter (\<lambda>(k, r). \<not> (\<exists>r'. (k, r') \<in> set xs \<and> P r')) xs =
         filter (\<lambda>(k, r). \<not> P r) xs"
proof (rule filter_cong [OF refl])
  fix x assume m: "x \<in> set xs"
  obtain k r where x: "x = (k, r)" by (cases x)
  have "(\<exists>r'. (k, r') \<in> set xs \<and> P r') \<longleftrightarrow> P r"
  proof
    assume "\<exists>r'. (k, r') \<in> set xs \<and> P r'"
    then obtain r' where r': "(k, r') \<in> set xs" "P r'" by blast
    have "r' = r"
      using assms r'(1) m unfolding x by (rule eq_key_imp_eq_value)
    with r'(2) show "P r" by simp
  next
    assume "P r"
    with m show "\<exists>r'. (k, r') \<in> set xs \<and> P r'" unfolding x by blast
  qed
  then show "(case x of (k, r) \<Rightarrow> \<not> (\<exists>r'. (k, r') \<in> set xs \<and> P r')) =
             (case x of (k, r) \<Rightarrow> \<not> P r)"
    unfolding x by auto
qed

lemma rooms_cleanup:
  assumes "distinct (map fst (rooms s))"
  shows "rooms (cleanup now s) = filter (\<lambda>(roomId, room). \<not> stale s now room) (rooms s)"
  using sweep_distinct [OF assms, of "stale s now"]
  by (simp add: cleanup_def sweep_fold)

lemma map_of_filter_distinct:
  assumes "distinct (map fst xs)" and "map_of xs k = Some v"
  shows "map_of (filter (\<lambda>(k, r). Q r) xs) k = (if Q v then Some v else None)"
  using assms
proof (induction xs)
  case Nil
  then show ?case by simp
next
  case (Cons x xs)
  obtain k' r where x: "x = (k', r)" by (cases x)
  show ?case
  proof (cases "k' = k")
    case True
    with Cons.prems x have v: "r = v" and nk: "k \<notin> fst ` set xs" by auto
    have "map_of (filter (\<lambda>(k, r). Q r) xs) k = None"
      using nk by (auto simp: map_of_eq_None_iff)
    then show ?thesis by (simp add: x True v)
  next
    case False
    with Cons show ?thesis by (simp add: x)
  qed
qed

text \<open>
  C7. One sweep of the reaper keeps the entries of the session table in their order and
  removes a session exactly when none of its participants has an open transport or
  \<open>now\<close> minus its creation time exceeds 24 hours (in milliseconds); a session with an
  open participant and within the age is left as it was, and nothing else in the state
  changes. The table is a \<^verbatim>\<open>Map\<close>: its keys are distinct.
\<close>

theorem cleanup_removes_exactly_stale:
  assumes "distinct (map fst (rooms s))"
  shows "rooms (cleanup now s) =
           filter (\<lambda>(roomId, room).
                     \<not> ((\<forall>p \<in> set (players room). ws_readyState (conns s p) \<noteq> OPEN)
                        \<or> now - createdAt room > 86400000)) (rooms s)
       \<and> (map_of (rooms s) roomId = Some room \<longrightarrow>
            map_of (rooms (cleanup now s)) roomId =
              (if (\<forall>p \<in> set (players room). ws_readyState (conns s p) \<noteq> OPEN)
                  \<or> now - createdAt room > 86400000
               then None else Some room))
       \<and> (map_of (rooms s) roomId = None \<longrightarrow> map_of (rooms (cleanup now s)) roomId = None)
       \<and> conns (cleanup now s) = conns s
       \<and> outbox (cleanup now s) = outbox s
       \<and> waitingPlayers (cleanup now s) = waitingPlayers s"
proof -
  have st: "stale s now r \<longleftrightarrow>
      (\<forall>p \<in> set (players r). ws_readyState (conns s p) \<noteq> OPEN) \<or> now - createdAt r > 86400000" for r
    by (simp add: stale_def hasActivePlayer_def maxAge_def isOpen_def list_ex_iff)
  have a: "rooms (cleanup now s) = filter (\<lambda>(roomId, room). \<not> stale s now room) (rooms s)"
    using assms by (rule rooms_cleanup)
  have b: "map_of (rooms (cleanup now s)) roomId = (if stale s now room then None else Some room)"
    if "map_of (rooms s) roomId = Some room"
    using map_of_filter_distinct [OF assms that, of "\<lambda>r. \<not> stale s now r"] by (simp add: a)
  have c: "map_of (rooms (cleanup now s)) roomId = None" if "map_of (rooms s) roomId = None"
    using that by (auto simp: a map_of_eq_None_iff)
  have d: "conns (cleanup now s) = conns s" "outbox (cleanup now s) = outbox s"
    "waitingPlayers (cleanup now s) = waitingPlayers s"
    by (simp_all add: cleanup_def)
  from a b c d show ?thesis
    unfolding st by simp
qed

text \<open>
  The example session, created at time 0 with both transports open, survives a sweep at
  exactly 24 hours and is removed one millisecond later; with every transport closed it
  is removed at once.
\<close>

theorem cleanup_removes_exactly_stale_witness:
  "distinct (map fst (rooms demo_paired))
   \<and> rooms (cleanup 86400000 demo_paired) = rooms demo_paired
   \<and> rooms (cleanup 86400001 demo_paired) = []
   \<and> rooms (cleanup 1 demo_closed) = []
   \<and> rooms demo_paired =
       [(JStr ''ABCD1234'', \<lparr>players = [1, 2], isPrivate = True, createdAt = 0,
                               ready = \<lparr>p1 = False, p2 = False\<rparr>\<rparr>)]"
  using cleanup_removes_exactly_stale [of demo_paired 86400000]
    cleanup_removes_exactly_stale [of demo_paired 86400001]
    cleanup_removes_exactly_stale [of demo_closed 1]
  by (simp add: demo_closed_def demo_paired_def demo_waiting_def demo_create_def demo_join_def eval_defs)

section \<open>Invariants of the session table\<close>

text \<open>
  The invariants hold at the start and are kept by every handler, by the \<^verbatim>\<open>close\<close>
  event and by the sweep. So the table a sweep finds has distinct keys, a session that
  is not full holds exactly its creator, and its id has the format.
\<close>

lemma keys_distinct_rooms_join:
  "keys_distinct s \<Longrightarrow> keys_distinct (snd (rooms_join roomId w s))"
  by (auto simp: keys_distinct_def rooms_join_def Let_def distinct_update split: option.splits)

lemma keys_distinct_createPrivate: "keys_distinct s \<Longrightarrow> keys_distinct (createPrivate w d now s)"
  by (auto simp: keys_distinct_def createPrivate_def Let_def distinct_update)

lemma keys_distinct_joinPrivate: "keys_distinct s \<Longrightarrow> keys_distinct (snd (joinPrivate w d s))"
  using keys_distinct_rooms_join [of "set_displayName w (js_or (get_prop d ''displayName'') (JStr ''Player'')) s"]
  by (auto simp: keys_distinct_def joinPrivate_def Let_def split: option.splits)

lemma keys_distinct_joinPublicQueue: "keys_distinct s \<Longrightarrow> keys_distinct (snd (joinPublicQueue w rnd now s))"
proof (cases "filter (isOpen s) (waitingPlayers s)")
  case Nil
  assume "keys_distinct s"
  with Nil show ?thesis by (simp add: keys_distinct_def joinPublicQueue_empty)
next
  case (Cons opponent rest)
  assume "keys_distinct s"
  with Cons show ?thesis
    by (simp add: keys_distinct_def rooms_joinPublicQueue_match distinct_update)
qed

lemma broadcastToRoom_rooms [simp]: "rooms (broadcastToRoom roomId m x s) = rooms s"
proof -
  have "rooms (fold (\<lambda>player st. if Some player \<noteq> x then send (Some player) m st else st) ps s) = rooms s" for ps
    by (induction ps arbitrary: s) simp_all
  then show ?thesis by (simp add: broadcastToRoom_def split: option.split)
qed

lemma clear_rooms [simp]: "rooms (clear_lastNewGameReqId ps s) = rooms s"
  unfolding clear_lastNewGameReqId_def by (induction ps arbitrary: s) simp_all

lemma keys_distinct_handleNewGameRequest:
  "keys_distinct s \<Longrightarrow> keys_distinct (handleNewGameRequest w d rnd s)"
  by (auto simp: keys_distinct_def handleNewGameRequest_def Let_def distinct_update
      split: option.splits)

lemma keys_distinct_relaySignal: "keys_distinct s \<Longrightarrow> keys_distinct (relaySignal w d s)"
  by (auto simp: keys_distinct_def relaySignal_def split: option.splits)

lemma keys_distinct_on_close: "keys_distinct s \<Longrightarrow> keys_distinct (on_close w s)"
  by (auto simp: keys_distinct_def on_close_def rooms_handleDisconnect_def rooms_remove_def Let_def
      distinct_delete split: option.splits)

lemma keys_distinct_cleanup: "keys_distinct s \<Longrightarrow> keys_distinct (cleanup now s)"
  by (simp add: keys_distinct_def rooms_cleanup distinct_map_filter)

lemma keys_distinct_state0: "keys_distinct state0"
  by (simp add: keys_distinct_def state0_def)

lemma list_all_update:
  "list_all P al \<Longrightarrow> P (k, v) \<Longrightarrow> list_all P (AList.update k v al)"
  by (induction al) auto

lemma list_all_delete: "list_all P al \<Longrightarrow> list_all P (AList.delete k al)"
  by (induction al) auto

lemma list_all_lookup: "list_all P al \<Longrightarrow> map_of al k = Some v \<Longrightarrow> P (k, v)"
  by (induction al) (auto split: if_splits)

lemma rooms_filled_rooms_join:
  "rooms_filled s \<Longrightarrow> rooms_filled (snd (rooms_join roomId w s))"
  by (auto simp: rooms_filled_def rooms_join_def Let_def intro!: list_all_update split: option.splits)

lemma rooms_filled_createPrivate: "rooms_filled s \<Longrightarrow> rooms_filled (createPrivate w d now s)"
  by (auto simp: rooms_filled_def createPrivate_def Let_def new_room_def intro!: list_all_update)

lemma rooms_filled_joinPrivate: "rooms_filled s \<Longrightarrow> rooms_filled (snd (joinPrivate w d s))"
  using rooms_filled_rooms_join [of "set_displayName w (js_or (get_prop d ''displayName'') (JStr ''Player'')) s"]
  by (auto simp: rooms_filled_def joinPrivate_def Let_def split: option.splits)

lemma rooms_filled_joinPublicQueue: "rooms_filled s \<Longrightarrow> rooms_filled (snd (joinPublicQueue w rnd now s))"
proof (cases "filter (isOpen s) (waitingPlayers s)")
  case Nil
  assume "rooms_filled s"
  with Nil show ?thesis by (simp add: rooms_filled_def joinPublicQueue_empty)
next
  case (Cons opponent rest)
  assume "rooms_filled s"
  with Cons show ?thesis
    by (auto simp: rooms_filled_def rooms_joinPublicQueue_match intro!: list_all_update)
qed

lemma rooms_filled_handleNewGameRequest:
  "rooms_filled s \<Longrightarrow> rooms_filled (handleNewGameRequest w d rnd s)"
  by (auto simp: rooms_filled_def handleNewGameRequest_def Let_def
      intro!: list_all_update split: option.splits)

lemma rooms_filled_relaySignal: "rooms_filled s \<Longrightarrow> rooms_filled (relaySignal w d s)"
  by (auto simp: rooms_filled_def relaySignal_def split: option.splits)

lemma rooms_filled_on_close: "rooms_filled s \<Longrightarrow> rooms_filled (on_close w s)"
  by (auto simp: rooms_filled_def on_close_def rooms_handleDisconnect_def rooms_remove_def Let_def
      intro!: list_all_delete split: option.splits)

lemma rooms_filled_cleanup: "rooms_filled s \<Longrightarrow> rooms_filled (cleanup now s)"
proof -
  assume "rooms_filled s"
  then have "list_all (\<lambda>(roomId, room). players room \<noteq> [] \<and> length (players room) \<le> 2)
      (fold (\<lambda>(roomId, room) rs. if stale s now room then AList.delete roomId rs else rs) xs (rooms s))" for xs
    unfolding rooms_filled_def sweep_fold by (simp add: list_all_iff)
  then show ?thesis by (simp add: rooms_filled_def cleanup_def)
qed

lemma rooms_filled_state0: "rooms_filled state0"
  by (simp add: rooms_filled_def state0_def)

lemma waiting_rooms_checked_state0: "waiting_rooms_checked state0"
  by (simp add: waiting_rooms_checked_def state0_def)

lemma waiting_rooms_checked_createPrivate:
  "waiting_rooms_checked s \<Longrightarrow> waiting_rooms_checked (createPrivate w d now s)"
  by (auto simp: waiting_rooms_checked_def createPrivate_def Let_def new_room_def intro!: list_all_update)

lemma waiting_rooms_checked_joinPrivate:
  "waiting_rooms_checked s \<Longrightarrow> waiting_rooms_checked (snd (joinPrivate w d s))"
  by (auto simp: waiting_rooms_checked_def joinPrivate_def rooms_join_def Let_def
      intro!: list_all_update split: option.splits)

lemma waiting_rooms_checked_joinPublicQueue:
  "waiting_rooms_checked s \<Longrightarrow> waiting_rooms_checked (snd (joinPublicQueue w rnd now s))"
proof (cases "filter (isOpen s) (waitingPlayers s)")
  case Nil
  assume "waiting_rooms_checked s"
  with Nil show ?thesis by (simp add: waiting_rooms_checked_def joinPublicQueue_empty)
next
  case (Cons opponent rest)
  assume "waiting_rooms_checked s"
  with Cons show ?thesis
    by (auto simp: waiting_rooms_checked_def rooms_joinPublicQueue_match intro!: list_all_update)
qed

lemma waiting_rooms_checked_handleNewGameRequest:
  "waiting_rooms_checked s \<Longrightarrow> waiting_rooms_checked (handleNewGameRequest w d rnd s)"
  by (auto simp: waiting_rooms_checked_def handleNewGameRequest_def Let_def
      intro!: list_all_update split: option.splits)

lemma waiting_rooms_checked_relaySignal:
  "waiting_rooms_checked s \<Longrightarrow> waiting_rooms_checked (relaySignal w d s)"
  by (auto simp: waiting_rooms_checked_def relaySignal_def split: option.splits)

lemma waiting_rooms_checked_on_close:
  "waiting_rooms_checked s \<Longrightarrow> waiting_rooms_checked (on_close w s)"
  by (auto simp: waiting_rooms_checked_def on_close_def rooms_handleDisconnect_def rooms_remove_def
      Let_def intro!: list_all_delete split: option.splits)

lemma waiting_rooms_checked_cleanup:
  "waiting_rooms_checked s \<Longrightarrow> waiting_rooms_checked (cleanup now s)"
proof -
  assume "waiting_rooms_checked s"
  then have "list_all (\<lambda>(roomId, room). length (players room) = 1 \<longrightarrow> isValidRoomId roomId)
      (fold (\<lambda>(roomId, room) rs. if stale s now room then AList.delete roomId rs else rs) xs (rooms s))" for xs
    unfolding waiting_rooms_checked_def sweep_fold by (simp add: list_all_iff)
  then show ?thesis by (simp add: waiting_rooms_checked_def cleanup_def)
qed

lemma waiting_room_id_checked:
  assumes "waiting_rooms_checked s" and "map_of (rooms s) roomId = Some room" and "players room = [c]"
  shows "isValidRoomId roomId"
  using list_all_lookup [OF assms(1) [unfolded waiting_rooms_checked_def] assms(2)] assms(3)
  by simp

end
